theory Spec2Isabelle
  imports Complex_Main "HOL-Library.Word"
begin

unbundle bit_operations_syntax

section \<open>The arithmetic of the C++ types \<open>float\<close> and \<open>double\<close>\<close>

text \<open>
  \<open>point_cloud_xyzl.cpp\<close> computes with \<open>float\<close> and \<open>double\<close>. Both are modelled by one
  type: a value is a NaN, an infinity or a finite real number, and every operation rounds
  its exact result to the format of its C++ type (IEEE-754 binary32 or binary64, round to
  nearest, ties to even, with gradual underflow and overflow to infinity).
  Negative zero is identified with zero, so a division by zero divides by \<open>+0\<close>.
\<close>

datatype fp = NaN | PInf | NInf | Fin real

datatype fmt = Binary32 | Binary64

fun prec :: "fmt \<Rightarrow> nat" where
  "prec Binary32 = 24"
| "prec Binary64 = 53"

fun emax :: "fmt \<Rightarrow> int" where
  "emax Binary32 = 127"
| "emax Binary64 = 1023"

definition emin :: "fmt \<Rightarrow> int" where
  "emin f = 1 - emax f"

text \<open>The binary exponent of \<open>a > 0\<close>: the \<open>e\<close> with \<open>2^e \<le> a < 2^(e+1)\<close>, found by scaling.\<close>

fun expo_aux :: "nat \<Rightarrow> real \<Rightarrow> int \<Rightarrow> int" where
  "expo_aux 0 a e = e"
| "expo_aux (Suc n) a e =
     (if 2 \<le> a then expo_aux n (a / 2) (e + 1)
      else if a < 1 then expo_aux n (a * 2) (e - 1)
      else e)"

definition round_even :: "real \<Rightarrow> int" where
  "round_even t =
     (let n = \<lfloor>t\<rfloor>; d = t - of_int n
      in if d < 1 / 2 then n else if 1 / 2 < d then n + 1 else if even n then n else n + 1)"

definition quantum :: "fmt \<Rightarrow> real \<Rightarrow> real" where
  "quantum f a =
     2 powi ((if a < 2 powi emin f then emin f else expo_aux (nat (emax f + 2)) a 0)
             - int (prec f) + 1)"

definition inf_of :: "bool \<Rightarrow> fp" where
  "inf_of positive = (if positive then PInf else NInf)"

definition rnd :: "fmt \<Rightarrow> real \<Rightarrow> fp" where
  "rnd f r =
     (if 2 powi (emax f + 1) \<le> \<bar>r\<bar> then inf_of (0 < r)
      else let q = quantum f \<bar>r\<bar>; y = of_int (round_even (r / q)) * q
           in if 2 powi (emax f + 1) \<le> \<bar>y\<bar> then inf_of (0 < r) else Fin y)"

fun is_nan :: "fp \<Rightarrow> bool" where
  "is_nan NaN = True"
| "is_nan _ = False"

fun is_finite :: "fp \<Rightarrow> bool" where
  "is_finite (Fin r) = True"
| "is_finite _ = False"

fun negative :: "fp \<Rightarrow> bool" where
  "negative NInf = True"
| "negative (Fin r) = (r < 0)"
| "negative _ = False"

fun fneg :: "fp \<Rightarrow> fp" where
  "fneg NaN = NaN"
| "fneg PInf = NInf"
| "fneg NInf = PInf"
| "fneg (Fin r) = Fin (- r)"

fun fadd :: "fmt \<Rightarrow> fp \<Rightarrow> fp \<Rightarrow> fp" where
  "fadd f (Fin a) (Fin b) = rnd f (a + b)"
| "fadd f NaN b = NaN"
| "fadd f a NaN = NaN"
| "fadd f PInf NInf = NaN"
| "fadd f NInf PInf = NaN"
| "fadd f PInf b = PInf"
| "fadd f NInf b = NInf"
| "fadd f a PInf = PInf"
| "fadd f a NInf = NInf"

definition fsub :: "fmt \<Rightarrow> fp \<Rightarrow> fp \<Rightarrow> fp" where
  "fsub f a b = fadd f a (fneg b)"

fun fmul :: "fmt \<Rightarrow> fp \<Rightarrow> fp \<Rightarrow> fp" where
  "fmul f (Fin a) (Fin b) = rnd f (a * b)"
| "fmul f NaN b = NaN"
| "fmul f a NaN = NaN"
| "fmul f (Fin a) b = (if a = 0 then NaN else inf_of ((a < 0) = negative b))"
| "fmul f a (Fin b) = (if b = 0 then NaN else inf_of (negative a = (b < 0)))"
| "fmul f PInf PInf = PInf"
| "fmul f PInf NInf = NInf"
| "fmul f NInf PInf = NInf"
| "fmul f NInf NInf = PInf"

fun fdiv :: "fmt \<Rightarrow> fp \<Rightarrow> fp \<Rightarrow> fp" where
  "fdiv f NaN b = NaN"
| "fdiv f a NaN = NaN"
| "fdiv f (Fin a) (Fin b) =
     (if b = 0 then (if a = 0 then NaN else inf_of (0 < a)) else rnd f (a / b))"
| "fdiv f (Fin a) b = Fin 0"
| "fdiv f a (Fin b) = inf_of (negative a = (b < 0))"
| "fdiv f a b = NaN"

text \<open>Conversions: integer to \<open>float\<close>, \<open>double\<close> to \<open>float\<close>, and \<open>float\<close> to \<open>int\<close>
  (truncation; a value outside \<open>int\<close> has no defined result).\<close>

definition float_of_int :: "int \<Rightarrow> fp" where
  "float_of_int i = rnd Binary32 (of_int i)"

definition double_of_int :: "int \<Rightarrow> fp" where
  "double_of_int i = rnd Binary64 (of_int i)"

fun float_of_double :: "fp \<Rightarrow> fp" where
  "float_of_double (Fin r) = rnd Binary32 r"
| "float_of_double a = a"

fun int_of_float :: "fp \<Rightarrow> int option" where
  "int_of_float (Fin r) =
     (let t = (if 0 \<le> r then \<lfloor>r\<rfloor> else \<lceil>r\<rceil>)
      in if - (2 ^ 31) \<le> t \<and> t < 2 ^ 31 then Some t else None)"
| "int_of_float a = None"

text \<open>Neither negative nor a NaN.\<close>

fun nonneg :: "fp \<Rightarrow> bool" where
  "nonneg (Fin r) = (0 \<le> r)"
| "nonneg PInf = True"
| "nonneg a = False"

text \<open>Finite and of magnitude at most \<open>2^32\<close>.\<close>

fun small :: "fp \<Rightarrow> bool" where
  "small (Fin r) = (\<bar>r\<bar> \<le> 2 ^ 32)"
| "small a = False"

text \<open>\<open>a\<close> is \<open>b\<close> up to the relative error \<open>eps\<close>.\<close>

definition close :: "real \<Rightarrow> real \<Rightarrow> real \<Rightarrow> bool" where
  "close eps a b \<longleftrightarrow> \<bar>a - b\<bar> \<le> eps * \<bar>b\<bar>"

text \<open>The value of the 32 bits of a \<open>float\<close> in memory.\<close>

definition float_of_bits :: "32 word \<Rightarrow> fp" where
  "float_of_bits w =
     (let e = unat (drop_bit 23 w AND 0xFF); m = unat (w AND 0x7FFFFF)
      in if e = 255 then (if m = 0 then inf_of (\<not> bit w 31) else NaN)
         else let a = (if e = 0 then real m * 2 powi (- 149)
                       else real (2 ^ 23 + m) * 2 powi (int e - 150))
              in Fin (if bit w 31 then - a else a))"

section \<open>Messages\<close>

type_synonym byte = "8 word"

record header =
  seq :: "32 word"
  stamp :: nat
  frame_id :: string

text \<open>\<open>sensor_msgs::Image\<close>\<close>

record image =
  header :: header
  height :: "32 word"
  width :: "32 word"
  encoding :: string
  is_bigendian :: bool
  step :: "32 word"
  data :: "byte list"

text \<open>\<open>sensor_msgs::CameraInfo\<close>: \<open>K\<close> and \<open>P\<close> are arrays of 9 and 12 doubles, indexed from 0.\<close>

record camera_info =
  info_header :: header
  info_height :: "32 word"
  info_width :: "32 word"
  K :: "nat \<Rightarrow> fp"
  P :: "nat \<Rightarrow> fp"

datatype field_type = FLOAT32 | UINT32

record point_field =
  field_name :: string
  field_offset :: nat
  field_datatype :: field_type
  field_count :: nat

record point =
  px :: fp
  py :: fp
  pz :: fp
  plabel :: "32 word"

text \<open>\<open>sensor_msgs::PointCloud2\<close>. The buffer is seen through the four iterators of
  \<open>convert\<close>: \<open>points\<close> is the sequence of points written, in the order of writing.\<close>

record cloud =
  cloud_header :: header
  cloud_height :: "32 word"
  cloud_width :: "32 word"
  cloud_fields :: "point_field list"
  cloud_is_bigendian :: bool
  point_step :: "32 word"
  row_step :: "32 word"
  points :: "point list"
  is_dense :: bool

text \<open>The encoding names of \<open>sensor_msgs/image_encodings.h\<close>.\<close>

definition TYPE_8UC1 :: string where "TYPE_8UC1 = ''8UC1''"
definition TYPE_16UC1 :: string where "TYPE_16UC1 = ''16UC1''"
definition TYPE_32SC1 :: string where "TYPE_32SC1 = ''32SC1''"
definition TYPE_32FC1 :: string where "TYPE_32FC1 = ''32FC1''"
definition MONO8 :: string where "MONO8 = ''mono8''"

section \<open>The pixel types of \<open>convert<T, T2>\<close>\<close>

text \<open>What \<open>convert\<close> needs of the depth type \<open>T\<close>: its size, the value of its bytes in memory
  (little-endian host), \<open>T(1)\<close> and the conversion to \<open>float\<close>.\<close>

record 'd depth_type =
  dsize :: nat
  dread :: "byte list \<Rightarrow> 'd"
  dunit :: 'd
  dfloat :: "'d \<Rightarrow> fp"

text \<open>What \<open>convert\<close> needs of the label type \<open>T2\<close>: its size, the value of its bytes,
  the test \<open>label < 0\<close> and the conversion to \<open>uint32_t\<close>.\<close>

record 'l label_type =
  lsize :: nat
  lread :: "byte list \<Rightarrow> 'l"
  lneg :: "'l \<Rightarrow> bool"
  lu32 :: "'l \<Rightarrow> 32 word"

definition le16 :: "byte list \<Rightarrow> 16 word" where
  "le16 bs = (case bs of [b0, b1] \<Rightarrow> word_of_nat (unat b0 + 2 ^ 8 * unat b1) | _ \<Rightarrow> 0)"

definition le32 :: "byte list \<Rightarrow> 32 word" where
  "le32 bs =
     (case bs of
        [b0, b1, b2, b3] \<Rightarrow>
          word_of_nat (unat b0 + 2 ^ 8 * unat b1 + 2 ^ 16 * unat b2 + 2 ^ 24 * unat b3)
      | _ \<Rightarrow> 0)"

definition uint16_t :: "16 word depth_type" where
  "uint16_t = \<lparr>dsize = 2, dread = le16, dunit = 1, dfloat = (\<lambda>d. Fin (real (unat d)))\<rparr>"

definition float_t :: "fp depth_type" where
  "float_t = \<lparr>dsize = 4, dread = (\<lambda>bs. float_of_bits (le32 bs)), dunit = Fin 1, dfloat = (\<lambda>d. d)\<rparr>"

definition int32_t :: "32 word label_type" where
  "int32_t = \<lparr>lsize = 4, lread = le32, lneg = (\<lambda>l. sint l < 0), lu32 = (\<lambda>l. l)\<rparr>"

definition uint8_t :: "byte label_type" where
  "uint8_t = \<lparr>lsize = 1, lread = (\<lambda>bs. case bs of [b] \<Rightarrow> b | _ \<Rightarrow> 0), lneg = (\<lambda>l. False), lu32 = ucast\<rparr>"

text \<open>\<open>DepthTraits<T>\<close> of \<open>depth_traits.h\<close>, a header that is not among the sources: the
  two members that \<open>convert\<close> calls are parameters of the model.\<close>

record 'd depth_traits =
  valid :: "'d \<Rightarrow> bool"
  toMeters :: "'d \<Rightarrow> fp"

section \<open>The collaborators of the nodelet\<close>

text \<open>The interpolation flags of \<open>cv::resize\<close> that matter here, and their values as
  \<open>int\<close>s.\<close>

datatype interpolation = INTER_NEAREST | INTER_LINEAR

fun interpolation_flag :: "interpolation \<Rightarrow> int" where
  "interpolation_flag INTER_NEAREST = 0"
| "interpolation_flag INTER_LINEAR = 1"

text \<open>\<open>cv_bridge::CvImage\<close> over a matrix type \<open>'m\<close> (\<open>cv::Mat\<close>).\<close>

record 'm cv_image =
  cv_header :: header
  cv_encoding :: string
  cv_mat :: 'm

text \<open>
  The libraries that \<open>imageCb\<close> and \<open>convert\<close> call are parameters:
  the accessors of \<open>image_geometry::PinholeCameraModel\<close>, as functions of the camera info
  last given to \<open>fromCameraInfo\<close>; \<open>cv_bridge\<close> (\<open>None\<close> is a \<open>cv_bridge::Exception\<close>);
  \<open>cv::Mat::rowRange\<close> and \<open>cv::resize\<close> (\<open>None\<close> is a \<open>cv::Exception\<close>); and the depth
  traits of the two depth types. The parameters of \<open>resize\<close> after the source are those of
  \<open>cv::resize(src, dst, dsize, fx, fy, interpolation)\<close>: the size, the two scale factors and
  the interpolation.
\<close>

record 'm env =
  cam_fx :: "camera_info \<Rightarrow> fp"
  cam_fy :: "camera_info \<Rightarrow> fp"
  cam_cx :: "camera_info \<Rightarrow> fp"
  cam_cy :: "camera_info \<Rightarrow> fp"
  toCvShare :: "image \<Rightarrow> string \<Rightarrow> 'm cv_image option"
  toCvCopy :: "image \<Rightarrow> string \<Rightarrow> 'm cv_image option"
  toImageMsg :: "'m cv_image \<Rightarrow> image"
  rowRange :: "'m \<Rightarrow> int \<Rightarrow> int \<Rightarrow> 'm option"
  resize :: "'m \<Rightarrow> int \<times> int \<Rightarrow> fp \<Rightarrow> fp \<Rightarrow> interpolation \<Rightarrow> 'm option"
  traits_u16 :: "16 word depth_traits"
  traits_f32 :: "fp depth_traits"

section \<open>The nodelet\<close>

text \<open>The members that a callback reads or writes: the camera model (the camera info it was
  last updated from, if any) and the clouds handed to \<open>pub_point_cloud_.publish\<close> so far.\<close>

record nodelet =
  model :: "camera_info option"
  published :: "cloud list"

text \<open>How a callback can end without publishing. The first four are the \<open>return\<close>s of
  \<open>imageCb\<close>; a \<open>cv::Exception\<close> is not caught by \<open>imageCb\<close>; an undefined result is a read
  outside a buffer or a \<open>float\<close> that has no \<open>int\<close> value.\<close>

datatype error =
    FrameIdMismatch
  | CvBridgeException
  | UnsupportedLabelEncoding
  | UnsupportedDepthEncoding
  | OpenCVException
  | CameraModelException
  | Undefined

subsection \<open>\<open>convert\<close>\<close>

definition int_of_size :: "nat \<Rightarrow> int" where
  "int_of_size n = sint (word_of_nat n :: 32 word)"

text \<open>\<open>row[i]\<close> for a pointer \<open>row\<close> that is \<open>off\<close> elements into the buffer.\<close>

definition peek :: "nat \<Rightarrow> (byte list \<Rightarrow> 'a) \<Rightarrow> byte list \<Rightarrow> int \<Rightarrow> 'a option" where
  "peek sz rd bytes i =
     (if 0 \<le> i \<and> (nat i + 1) * sz \<le> length bytes
      then Some (rd (take sz (drop (nat i * sz) bytes))) else None)"

record locals =
  center_x :: fp
  center_y :: fp
  constant_x :: fp
  constant_y :: fp
  bad_point :: fp

definition fill_point ::
  "'d depth_type \<Rightarrow> 'd depth_traits \<Rightarrow> 'l label_type \<Rightarrow> locals \<Rightarrow> nat \<Rightarrow> nat \<Rightarrow> 'd \<Rightarrow> 'l \<Rightarrow> point" where
  "fill_point T tr T2 c v u depth label =
     (if \<not> valid tr depth \<or> lneg T2 label
      then \<lparr>px = bad_point c, py = bad_point c, pz = bad_point c, plabel = lu32 T2 label\<rparr>
      else \<lparr>px = fmul Binary32 (fmul Binary32 (fsub Binary32 (float_of_int (int u)) (center_x c))
                                  (dfloat T depth)) (constant_x c),
            py = fmul Binary32 (fmul Binary32 (fsub Binary32 (float_of_int (int v)) (center_y c))
                                  (dfloat T depth)) (constant_y c),
            pz = toMeters tr depth,
            plabel = lu32 T2 label\<rparr>)"

text \<open>The inner loop over \<open>u\<close>, and the outer loop over \<open>v\<close> with its two row pointers.\<close>

fun convert_cols ::
  "'d depth_type \<Rightarrow> 'd depth_traits \<Rightarrow> 'l label_type \<Rightarrow> locals \<Rightarrow> byte list \<Rightarrow> byte list
   \<Rightarrow> nat \<Rightarrow> int \<Rightarrow> int \<Rightarrow> nat list \<Rightarrow> point list option" where
  "convert_cols T tr T2 c dd ld v depth_row label_row [] = Some []"
| "convert_cols T tr T2 c dd ld v depth_row label_row (u # us) =
     (case (peek (dsize T) (dread T) dd (depth_row + int u),
            peek (lsize T2) (lread T2) ld (label_row + int u)) of
        (Some depth, Some label) \<Rightarrow>
          map_option ((#) (fill_point T tr T2 c v u depth label))
            (convert_cols T tr T2 c dd ld v depth_row label_row us)
      | _ \<Rightarrow> None)"

fun convert_rows ::
  "'d depth_type \<Rightarrow> 'd depth_traits \<Rightarrow> 'l label_type \<Rightarrow> locals \<Rightarrow> byte list \<Rightarrow> byte list
   \<Rightarrow> nat \<Rightarrow> int \<Rightarrow> int \<Rightarrow> int \<Rightarrow> int \<Rightarrow> nat list \<Rightarrow> point list option" where
  "convert_rows T tr T2 c dd ld w rs lrs depth_row label_row [] = Some []"
| "convert_rows T tr T2 c dd ld w rs lrs depth_row label_row (v # vs) =
     (case convert_cols T tr T2 c dd ld v depth_row label_row [0..<w] of
        None \<Rightarrow> None
      | Some ps \<Rightarrow>
          map_option ((@) ps)
            (convert_rows T tr T2 c dd ld w rs lrs (depth_row + rs) (label_row + lrs) vs))"

text \<open>The local variables of \<open>convert\<close> that are set before its loops.\<close>

definition convert_locals :: "'m env \<Rightarrow> 'd depth_type \<Rightarrow> 'd depth_traits \<Rightarrow> camera_info \<Rightarrow> locals" where
  "convert_locals env T tr cam =
     (let unit_scaling = toMeters tr (dunit T)
      in \<lparr>center_x = float_of_double (cam_cx env cam),
          center_y = float_of_double (cam_cy env cam),
          constant_x = float_of_double (fdiv Binary64 unit_scaling (cam_fx env cam)),
          constant_y = float_of_double (fdiv Binary64 unit_scaling (cam_fy env cam)),
          bad_point = NaN\<rparr>)"

definition convert ::
  "'m env \<Rightarrow> 'd depth_type \<Rightarrow> 'd depth_traits \<Rightarrow> 'l label_type \<Rightarrow> nodelet
   \<Rightarrow> image \<Rightarrow> image \<Rightarrow> cloud \<Rightarrow> error + cloud" where
  "convert env T tr T2 s depth_msg label_msg cloud_msg =
     (case model s of
        None \<Rightarrow> Inl CameraModelException
      | Some cam \<Rightarrow>
          (case convert_rows T tr T2 (convert_locals env T tr cam)
                  (data depth_msg) (data label_msg)
                  (nat (sint (cloud_width cloud_msg)))
                  (int_of_size (unat (step depth_msg) div dsize T))
                  (int_of_size (unat (step label_msg) div lsize T2)) 0 0
                  [0..<nat (sint (cloud_height cloud_msg))] of
             None \<Rightarrow> Inl Undefined
           | Some ps \<Rightarrow> Inr (cloud_msg\<lparr>points := ps\<rparr>)))"

text \<open>The samples that \<open>convert\<close> reads in row \<open>v\<close> at column \<open>u\<close>: \<open>depth_row[u]\<close> and
  \<open>label_row[u]\<close> after \<open>v\<close> steps of the row pointers.\<close>

definition depth_at :: "'d depth_type \<Rightarrow> image \<Rightarrow> nat \<Rightarrow> nat \<Rightarrow> 'd option" where
  "depth_at T depth_msg v u =
     peek (dsize T) (dread T) (data depth_msg)
       (int v * int_of_size (unat (step depth_msg) div dsize T) + int u)"

definition label_at :: "'l label_type \<Rightarrow> image \<Rightarrow> nat \<Rightarrow> nat \<Rightarrow> 'l option" where
  "label_at T2 label_msg v u =
     peek (lsize T2) (lread T2) (data label_msg)
       (int v * int_of_size (unat (step label_msg) div lsize T2) + int u)"

subsection \<open>\<open>imageCb\<close>\<close>

text \<open>Lines 164 to 204: the label image is resized when its size is not the depth image's.
  The call on lines 195 to 198 has four arguments, \<open>cv::resize(src, dst, dsize,
  cv::INTER_NEAREST)\<close>: the fourth parameter of \<open>cv::resize\<close> is the scale factor \<open>fx\<close>, a
  \<open>double\<close>, so the flag is converted to the \<open>double\<close> 0, and \<open>fy\<close> and the interpolation have
  their default values, 0 and \<open>INTER_LINEAR\<close>.\<close>

definition scale_info :: "camera_info \<Rightarrow> image \<Rightarrow> fp \<Rightarrow> camera_info" where
  "scale_info info_msg depth_msg ratio =
     info_msg\<lparr>info_width := width depth_msg, info_height := height depth_msg,
       K := (\<lambda>i. if i \<in> {0, 2, 4, 5} then fmul Binary64 (K info_msg i) ratio else K info_msg i),
       P := (\<lambda>i. if i \<in> {0, 2, 5, 6} then fmul Binary64 (P info_msg i) ratio else P info_msg i)\<rparr>"

definition imageCb_resize ::
  "'m env \<Rightarrow> image \<Rightarrow> image \<Rightarrow> camera_info \<Rightarrow> nodelet \<Rightarrow> (error + image) \<times> nodelet" where
  "imageCb_resize env depth_msg label_msg info_msg s =
     (if width depth_msg \<noteq> width label_msg \<or> height depth_msg \<noteq> height label_msg
      then
        let ratio = fdiv Binary32 (float_of_int (uint (width depth_msg)))
                                  (float_of_int (uint (width label_msg)));
            s' = s\<lparr>model := Some (scale_info info_msg depth_msg ratio)\<rparr>
        in (case toCvShare env label_msg (encoding label_msg) of
              None \<Rightarrow> (Inl CvBridgeException, s')
            | Some cv_ptr \<Rightarrow>
               (case int_of_float (fdiv Binary32 (float_of_int (uint (height depth_msg))) ratio) of
                  None \<Rightarrow> (Inl Undefined, s')
                | Some rows \<Rightarrow>
                    (case rowRange env (cv_mat cv_ptr) 0 rows of
                       None \<Rightarrow> (Inl OpenCVException, s')
                     | Some cropped \<Rightarrow>
                         (case resize env cropped
                                 (sint (width depth_msg), sint (height depth_msg))
                                 (double_of_int (interpolation_flag INTER_NEAREST)) (Fin 0)
                                 INTER_LINEAR of
                            None \<Rightarrow> (Inl OpenCVException, s')
                          | Some resized \<Rightarrow>
                              (Inr (toImageMsg env
                                      \<lparr>cv_header = cv_header cv_ptr,
                                       cv_encoding = cv_encoding cv_ptr,
                                       cv_mat = resized\<rparr>), s')))))
      else (Inr label_msg, s))"

text \<open>Lines 206 to 218: the supported label encodings.\<close>

definition imageCb_encoding :: "'m env \<Rightarrow> image \<Rightarrow> error + image" where
  "imageCb_encoding env label_msg =
     (if encoding label_msg \<noteq> TYPE_32SC1 \<or> encoding label_msg \<noteq> TYPE_8UC1
      then (case toCvCopy env label_msg TYPE_32SC1 of
              None \<Rightarrow> Inl UnsupportedLabelEncoding
            | Some cv \<Rightarrow> Inr (toImageMsg env cv))
      else Inr label_msg)"

text \<open>Lines 220 to 233: the new cloud message and its four fields.\<close>

definition setPointCloud2Fields :: "cloud \<Rightarrow> cloud" where
  "setPointCloud2Fields c =
     c\<lparr>cloud_fields :=
         [\<lparr>field_name = ''x'', field_offset = 0, field_datatype = FLOAT32, field_count = 1\<rparr>,
          \<lparr>field_name = ''y'', field_offset = 4, field_datatype = FLOAT32, field_count = 1\<rparr>,
          \<lparr>field_name = ''z'', field_offset = 8, field_datatype = FLOAT32, field_count = 1\<rparr>,
          \<lparr>field_name = ''label'', field_offset = 12, field_datatype = UINT32, field_count = 1\<rparr>],
       point_step := 16,
       row_step := cloud_width c * 16\<rparr>"

definition new_cloud :: "image \<Rightarrow> cloud" where
  "new_cloud depth_msg =
     setPointCloud2Fields
       \<lparr>cloud_header = header depth_msg,
        cloud_height = height depth_msg,
        cloud_width = width depth_msg,
        cloud_fields = [],
        cloud_is_bigendian = False,
        point_step = 0,
        row_step = 0,
        points = [],
        is_dense = False\<rparr>"

text \<open>Lines 236 to 260: the instance of \<open>convert\<close> is chosen by the two encodings.\<close>

definition imageCb_convert ::
  "'m env \<Rightarrow> nodelet \<Rightarrow> image \<Rightarrow> image \<Rightarrow> cloud \<Rightarrow> error + cloud" where
  "imageCb_convert env s depth_msg label_msg cloud_msg =
     (if encoding depth_msg = TYPE_16UC1 \<and> encoding label_msg = TYPE_32SC1
      then convert env uint16_t (traits_u16 env) int32_t s depth_msg label_msg cloud_msg
      else if encoding depth_msg = TYPE_16UC1 \<and> encoding label_msg = MONO8
      then convert env uint16_t (traits_u16 env) uint8_t s depth_msg label_msg cloud_msg
      else if encoding depth_msg = TYPE_32FC1 \<and> encoding label_msg = TYPE_32SC1
      then convert env float_t (traits_f32 env) int32_t s depth_msg label_msg cloud_msg
      else if encoding depth_msg = TYPE_32FC1 \<and> encoding label_msg = MONO8
      then convert env float_t (traits_f32 env) uint8_t s depth_msg label_msg cloud_msg
      else Inl UnsupportedDepthEncoding)"

definition imageCb ::
  "'m env \<Rightarrow> image \<Rightarrow> image \<Rightarrow> camera_info \<Rightarrow> nodelet \<Rightarrow> error option \<times> nodelet" where
  "imageCb env depth_msg label_msg_in info_msg s =
     (if frame_id (header depth_msg) \<noteq> frame_id (header label_msg_in)
      then (Some FrameIdMismatch, s)
      else
        (case imageCb_resize env depth_msg label_msg_in info_msg (s\<lparr>model := Some info_msg\<rparr>) of
          (Inl e, s1) \<Rightarrow> (Some e, s1)
        | (Inr label_msg, s1) \<Rightarrow>
            (case imageCb_encoding env label_msg of
               Inl e \<Rightarrow> (Some e, s1)
             | Inr label_msg' \<Rightarrow>
                 (case imageCb_convert env s1 depth_msg label_msg' (new_cloud depth_msg) of
                    Inl e \<Rightarrow> (Some e, s1)
                  | Inr cloud_msg \<Rightarrow> (None, s1\<lparr>published := published s1 @ [cloud_msg]\<rparr>)))))"

section \<open>A reference instance of the collaborators\<close>

text \<open>
  One instance of the parameters, on which the model runs on concrete frames: a matrix is
  a list of rows, a row a list of pixels, a pixel the list of its bytes.
\<close>

type_synonym mat = "byte list list list"

definition elem_size :: "string \<Rightarrow> nat option" where
  "elem_size e =
     (if e = TYPE_8UC1 \<or> e = MONO8 then Some 1
      else if e = TYPE_16UC1 then Some 2
      else if e = TYPE_32SC1 \<or> e = TYPE_32FC1 then Some 4
      else None)"

definition mat_of_image :: "image \<Rightarrow> nat \<Rightarrow> mat" where
  "mat_of_image img k =
     map (\<lambda>v. map (\<lambda>u. take k (drop (v * unat (step img) + u * k) (data img)))
                 [0..<unat (width img)])
       [0..<unat (height img)]"

definition ref_toCvShare :: "image \<Rightarrow> string \<Rightarrow> mat cv_image option" where
  "ref_toCvShare img e =
     (case elem_size (encoding img) of
        None \<Rightarrow> None
      | Some k \<Rightarrow>
          if e \<noteq> encoding img \<or> unat (step img) < unat (width img) * k
             \<or> length (data img) < unat (height img) * unat (step img)
          then None
          else Some \<lparr>cv_header = header img, cv_encoding = e, cv_mat = mat_of_image img k\<rparr>)"

text \<open>A copy in the same encoding, or an unsigned 8-bit or 16-bit image widened to 32 bits.\<close>

definition ref_toCvCopy :: "image \<Rightarrow> string \<Rightarrow> mat cv_image option" where
  "ref_toCvCopy img e =
     (case ref_toCvShare img (encoding img) of
        None \<Rightarrow> None
      | Some cv \<Rightarrow>
          if e = encoding img then Some cv
          else if e = TYPE_32SC1 \<and> encoding img \<in> {TYPE_8UC1, TYPE_16UC1}
          then Some (cv\<lparr>cv_encoding := e,
                        cv_mat := map (map (\<lambda>p. take 4 (p @ [0, 0, 0]))) (cv_mat cv)\<rparr>)
          else None)"

definition ref_toImageMsg :: "mat cv_image \<Rightarrow> image" where
  "ref_toImageMsg cv =
     (let cols = (case cv_mat cv of [] \<Rightarrow> 0 | r # _ \<Rightarrow> length r);
          k = (case elem_size (cv_encoding cv) of None \<Rightarrow> 0 | Some k \<Rightarrow> k)
      in \<lparr>header = cv_header cv,
          height = of_nat (length (cv_mat cv)),
          width = of_nat cols,
          encoding = cv_encoding cv,
          is_bigendian = False,
          step = of_nat (cols * k),
          data = concat (map concat (cv_mat cv))\<rparr>)"

definition ref_rowRange :: "mat \<Rightarrow> int \<Rightarrow> int \<Rightarrow> mat option" where
  "ref_rowRange m a b =
     (if 0 \<le> a \<and> a \<le> b \<and> b \<le> int (length m)
      then Some (take (nat (b - a)) (drop (nat a) m)) else None)"

text \<open>\<open>cv::resize\<close> to a given size, where the scale factors are not used. With
  \<open>INTER_NEAREST\<close> every pixel of the result is a pixel of the source. With \<open>INTER_LINEAR\<close>
  there is no result: OpenCV has no linear kernel for matrices of 32-bit integers, which
  the matrices resized in the examples are.\<close>

definition ref_resize :: "mat \<Rightarrow> int \<times> int \<Rightarrow> fp \<Rightarrow> fp \<Rightarrow> interpolation \<Rightarrow> mat option" where
  "ref_resize m sz fx fy interp =
     (case m of
        [] \<Rightarrow> None
      | r # _ \<Rightarrow>
          if r = [] \<or> fst sz \<le> 0 \<or> snd sz \<le> 0 \<or> interp \<noteq> INTER_NEAREST then None
          else Some (map (\<lambda>y. map (\<lambda>x. m ! min (y * length m div nat (snd sz)) (length m - 1)
                                            ! min (x * length r div nat (fst sz)) (length r - 1))
                                 [0..<nat (fst sz)])
                       [0..<nat (snd sz)]))"

text \<open>Modelled from the spec: the depth traits of \<open>depth_traits.h\<close>, which is not among the
  sources. For raw 16-bit depths, the spec has a sentinel as the invalid value and a scale
  from millimetres to metres; for \<open>float\<close> depths, NaN and zero as invalid and the identity
  as conversion.\<close>

definition ref_traits_u16 :: "16 word depth_traits" where
  "ref_traits_u16 =
     \<lparr>valid = (\<lambda>d. d \<noteq> 0),
      toMeters = (\<lambda>d. fmul Binary32 (Fin (real (unat d))) (rnd Binary32 (1 / 1000)))\<rparr>"

definition ref_traits_f32 :: "fp depth_traits" where
  "ref_traits_f32 = \<lparr>valid = (\<lambda>d. \<not> is_nan d \<and> d \<noteq> Fin 0), toMeters = (\<lambda>d. d)\<rparr>"

text \<open>The camera model without binning and without a region of interest: the focal lengths
  and the principal point are entries of the projection matrix.\<close>

definition ref_env :: "mat env" where
  "ref_env =
     \<lparr>cam_fx = (\<lambda>cam. P cam 0), cam_fy = (\<lambda>cam. P cam 5),
      cam_cx = (\<lambda>cam. P cam 2), cam_cy = (\<lambda>cam. P cam 6),
      toCvShare = ref_toCvShare, toCvCopy = ref_toCvCopy, toImageMsg = ref_toImageMsg,
      rowRange = ref_rowRange, resize = ref_resize,
      traits_u16 = ref_traits_u16, traits_f32 = ref_traits_f32\<rparr>"

section \<open>Example frames\<close>

text \<open>A depth image of one row and two columns in millimetres (1000 and the invalid 0), a
  label image of the same size (7 and -1) with another time stamp, a camera info with
  \<open>fx = fy = 100\<close>, \<open>cx = 1/2\<close>, \<open>cy = 0\<close>, and a nodelet that has not published yet.\<close>

definition ex_header :: header where
  "ex_header = \<lparr>seq = 0, stamp = 5, frame_id = ''camera''\<rparr>"

definition ex_depth :: image where
  "ex_depth =
     \<lparr>header = ex_header, height = 1, width = 2, encoding = TYPE_16UC1, is_bigendian = False,
      step = 4, data = [0xE8, 0x03, 0, 0]\<rparr>"

definition ex_label :: image where
  "ex_label =
     \<lparr>header = ex_header\<lparr>stamp := 6\<rparr>, height = 1, width = 2, encoding = TYPE_32SC1,
      is_bigendian = False, step = 8, data = [7, 0, 0, 0, 0xFF, 0xFF, 0xFF, 0xFF]\<rparr>"

definition ex_info :: camera_info where
  "ex_info =
     \<lparr>info_header = ex_header, info_height = 1, info_width = 2,
      K = (\<lambda>i. Fin (if i = 0 \<or> i = 4 then 100 else if i = 2 then 1 / 2 else if i = 8 then 1 else 0)),
      P = (\<lambda>i. Fin (if i = 0 \<or> i = 5 then 100 else if i = 2 then 1 / 2 else if i = 10 then 1 else 0))\<rparr>"

definition ex_nodelet :: nodelet where
  "ex_nodelet = \<lparr>model = None, published = []\<rparr>"

text \<open>A label image of one pixel, for the same camera, and a depth image of two rows and
  two columns.\<close>

definition ex_small_label :: image where
  "ex_small_label =
     \<lparr>header = ex_header\<lparr>stamp := 6\<rparr>, height = 1, width = 1, encoding = TYPE_32SC1,
      is_bigendian = False, step = 4, data = [7, 0, 0, 0]\<rparr>"

definition ex_big_depth :: image where
  "ex_big_depth =
     \<lparr>header = ex_header, height = 2, width = 2, encoding = TYPE_16UC1, is_bigendian = False,
      step = 4, data = [0xE8, 0x03, 0xE8, 0x03, 0xE8, 0x03, 0, 0]\<rparr>"

text \<open>An 8-bit unsigned label image with the labels 7 and 9.\<close>

definition ex_label8 :: image where
  "ex_label8 =
     \<lparr>header = ex_header\<lparr>stamp := 6\<rparr>, height = 1, width = 2, encoding = TYPE_8UC1,
      is_bigendian = False, step = 2, data = [7, 9]\<rparr>"

text \<open>A nodelet that has already handled another camera and published a cloud.\<close>

definition ex_busy_nodelet :: nodelet where
  "ex_busy_nodelet =
     \<lparr>model = Some (ex_info\<lparr>P := (\<lambda>i. Fin 1)\<rparr>), published = [new_cloud ex_label]\<rparr>"

text \<open>A \<open>float\<close> depth image of one row and three columns, every depth \<open>1.5 * 2^127\<close> metres
  (the bits \<open>0x7F400000\<close>), a label image of the same size, and a camera info with
  \<open>fx = fy = 1\<close> and \<open>cx = cy = 1/2\<close>.\<close>

definition ex_far_depth :: image where
  "ex_far_depth =
     \<lparr>header = ex_header, height = 1, width = 3, encoding = TYPE_32FC1, is_bigendian = False,
      step = 12, data = [0, 0, 0x40, 0x7F, 0, 0, 0x40, 0x7F, 0, 0, 0x40, 0x7F]\<rparr>"

definition ex_label3 :: image where
  "ex_label3 =
     \<lparr>header = ex_header, height = 1, width = 3, encoding = TYPE_32SC1, is_bigendian = False,
      step = 12, data = [7, 0, 0, 0, 7, 0, 0, 0, 7, 0, 0, 0]\<rparr>"

definition ex_unit_info :: camera_info where
  "ex_unit_info =
     \<lparr>info_header = ex_header, info_height = 1, info_width = 3,
      K = (\<lambda>i. Fin (if i = 0 \<or> i = 4 \<or> i = 8 then 1 else if i = 2 \<or> i = 5 then 1 / 2 else 0)),
      P = (\<lambda>i. Fin (if i = 0 \<or> i = 5 \<or> i = 10 then 1 else if i = 2 \<or> i = 6 then 1 / 2 else 0))\<rparr>"

text \<open>The cloud of the first depth image and the 8-bit label image.\<close>

definition ex_cloud8 :: cloud where
  "ex_cloud8 =
     (new_cloud ex_depth)\<lparr>points :=
        [\<lparr>px = Fin (- (10737419 / 2147483648)), py = Fin 0, pz = Fin 1, plabel = 7\<rparr>,
         \<lparr>px = NaN, py = NaN, pz = NaN, plabel = 9\<rparr>]\<rparr>"




text \<open>The cloud of the first example.\<close>

definition ex_cloud :: cloud where
  "ex_cloud =
     (new_cloud ex_depth)\<lparr>points :=
        [\<lparr>px = Fin (- (10737419 / 2147483648)), py = Fin 0, pz = Fin 1, plabel = 7\<rparr>,
         \<lparr>px = NaN, py = NaN, pz = NaN, plabel = 0xFFFFFFFF\<rparr>]\<rparr>"

section \<open>Rounding keeps the sign\<close>

lemma round_even_nonneg: "0 \<le> t \<Longrightarrow> 0 \<le> round_even t"
  by (auto simp: round_even_def Let_def)

lemma quantum_pos: "0 < quantum f a"
  by (simp add: quantum_def)

lemma rnd_nonneg:
  assumes "0 \<le> r"
  shows "rnd f r = PInf \<or> (\<exists>y\<ge>0. rnd f r = Fin y)"
proof -
  let ?q = "quantum f \<bar>r\<bar>"
  let ?y = "of_int (round_even (r / ?q)) * ?q"
  have y0: "0 \<le> ?y"
    using assms quantum_pos [of f "\<bar>r\<bar>"] round_even_nonneg [of "r / ?q"] by simp
  have pos: "0 < r" if h: "(2::real) powi (emax f + 1) \<le> \<bar>?y\<bar>"
  proof (rule ccontr)
    assume "\<not> 0 < r"
    with assms have "r = 0" by simp
    then have "\<bar>?y\<bar> = 0"
      by (simp add: round_even_def)
    moreover have "(0::real) < 2 powi (emax f + 1)"
      by simp
    ultimately show False
      using h by linarith
  qed
  show ?thesis
    using assms y0 pos by (auto simp: rnd_def Let_def inf_of_def)
qed

lemma nonneg_rnd: "0 \<le> r \<Longrightarrow> nonneg (rnd f r)"
  using rnd_nonneg [of r f] by auto

lemma nonneg_float_of_int: "0 \<le> i \<Longrightarrow> nonneg (float_of_int i)"
  by (simp add: float_of_int_def nonneg_rnd)

lemma nonneg_fdiv: "nonneg a \<Longrightarrow> nonneg b \<Longrightarrow> fdiv f a b = NaN \<or> nonneg (fdiv f a b)"
  by (cases a; cases b) (auto simp: inf_of_def nonneg_rnd)

lemma int_of_float_floor:
  "nonneg a \<Longrightarrow> int_of_float a = Some n \<Longrightarrow> \<exists>q\<ge>0. a = Fin q \<and> n = \<lfloor>q\<rfloor>"
  by (cases a) (auto simp: Let_def split: if_splits)


section \<open>Rounding stays within the format\<close>

lemma expo_aux_spec:
  "0 < a \<Longrightarrow> 2 powi (- int n) \<le> a \<Longrightarrow> a < 2 powi (int n + 1) \<Longrightarrow>
   2 powi (expo_aux n a e) \<le> a * 2 powi e \<and> a * 2 powi e < 2 powi (expo_aux n a e + 1)"
proof (induction n arbitrary: a e)
  case 0
  then show ?case by (simp add: power_int_add)
next
  case (Suc n)
  have low: "(2::real) powi (- int n) \<le> 1"
    by (simp add: power_int_minus inverse_le_1_iff one_le_power)
  have up: "(2::real) \<le> 2 powi (int n + 1)"
    by (simp add: power_int_add one_le_power)
  show ?case
  proof (cases "2 \<le> a")
    case True
    have "a / 2 < 2 powi (int n + 1)"
      using Suc.prems(3) by (simp add: power_int_add)
    with Suc.IH [of "a / 2" "e + 1"] True low show ?thesis
      by (simp add: power_int_add)
  next
    case False
    show ?thesis
    proof (cases "a < 1")
      case True
      have "2 powi (- int n) \<le> a * 2"
        using Suc.prems(2) by (simp add: power_int_diff power_int_minus field_simps)
      moreover have "a * 2 < 2 powi (int n + 1)"
        using True up by linarith
      ultimately show ?thesis
        using Suc.IH [of "a * 2" "e - 1"] True Suc.prems(1)
        by (simp add: power_int_diff)
    next
      case False
      with \<open>\<not> 2 \<le> a\<close> show ?thesis
        by (simp add: power_int_add)
    qed
  qed
qed

lemma round_even_error: "\<bar>of_int (round_even t) - t\<bar> \<le> 1 / 2"
  unfolding round_even_def Let_def by (auto simp: abs_if) linarith+

lemma round_even_of_int [simp]: "round_even (of_int k) = k"
  by (simp add: round_even_def)

lemma round_even_le: "t \<le> of_int k \<Longrightarrow> round_even t \<le> k"
  unfolding round_even_def Let_def
  by (auto simp: not_less) (linarith | simp add: le_floor_iff floor_le_iff)+

lemma round_even_ge: "of_int k \<le> t \<Longrightarrow> k \<le> round_even t"
  unfolding round_even_def Let_def
  by (auto simp: le_floor_iff) linarith+


lemma abs_scale:
  fixes a r q :: real
  assumes "0 < q"
  shows "\<bar>a - r / q\<bar> * q = \<bar>a * q - r\<bar>"
proof -
  have "\<bar>a - r / q\<bar> * q = \<bar>(a - r / q) * q\<bar>"
    using assms by (simp add: abs_mult)
  also have "(a - r / q) * q = a * q - r"
    using assms by (simp add: field_simps)
  finally show ?thesis .
qed

lemma emax_pos: "0 < emax f"
  by (cases f) simp_all

lemma prec_pos: "0 < prec f"
  by (cases f) simp_all

lemma pow2_less_iff: "(2::real) powi m < 2 powi n \<longleftrightarrow> m < n"
proof
  assume "(2::real) powi m < 2 powi n"
  then show "m < n"
    using power_int_increasing [of n m "2::real"] by (cases "m < n") auto
next
  assume "m < n"
  then show "(2::real) powi m < 2 powi n"
    by (simp add: power_int_strict_increasing)
qed

lemma pow2_le_iff: "(2::real) powi m \<le> 2 powi n \<longleftrightarrow> m \<le> n"
  using pow2_less_iff [of n m] by (auto simp: not_less [symmetric])

text \<open>The quantum of \<open>a\<close> is \<open>2^(E - p + 1)\<close> for the exponent \<open>E\<close> of its binade, or of the
  lowest binade when \<open>a\<close> is below the normal numbers.\<close>

lemma quantum_exponent:
  assumes "0 \<le> a" and "a < 2 powi (emax f + 1)"
  obtains E where "quantum f a = 2 powi (E - int (prec f) + 1)"
    and "emin f \<le> E" and "E \<le> emax f"
    and "2 powi emin f \<le> a \<Longrightarrow> 2 powi E \<le> a \<and> a < 2 powi (E + 1)"
    and "a < 2 powi emin f \<Longrightarrow> E = emin f"
proof (cases "a < 2 powi emin f")
  case True
  show ?thesis
  proof (rule that [of "emin f"])
    show "quantum f a = 2 powi (emin f - int (prec f) + 1)"
      using True by (simp add: quantum_def)
    show "emin f \<le> emax f"
      using emax_pos [of f] by (simp add: emin_def)
  qed (use True in simp_all)
next
  case False
  define n where "n = nat (emax f + 2)"
  define E where "E = expo_aux n a 0"
  have n: "int n = emax f + 2"
    using emax_pos [of f] by (simp add: n_def)
  have a: "2 powi emin f \<le> a"
    using False by simp
  then have pos: "0 < a"
    by (smt (verit) zero_less_power_int)
  have "(2::real) powi (- int n) \<le> 2 powi emin f"
    by (simp add: pow2_le_iff n emin_def)
  then have low: "2 powi (- int n) \<le> a"
    using a by linarith
  have "(2::real) powi (emax f + 1) \<le> 2 powi (int n + 1)"
    by (simp add: pow2_le_iff n)
  then have up: "a < 2 powi (int n + 1)"
    using assms(2) by linarith
  from expo_aux_spec [OF pos low up, of 0]
  have E: "2 powi E \<le> a" "a < 2 powi (E + 1)"
    by (simp_all add: E_def)
  have "(2::real) powi emin f < 2 powi (E + 1)"
    using a E(2) by linarith
  then have lo: "emin f \<le> E"
    by (simp add: pow2_less_iff)
  have "(2::real) powi E < 2 powi (emax f + 1)"
    using E(1) assms(2) by linarith
  then have hi: "E \<le> emax f"
    by (simp add: pow2_less_iff)
  show ?thesis
  proof (rule that [of E])
    show "quantum f a = 2 powi (E - int (prec f) + 1)"
      using False by (simp add: quantum_def E_def n_def)
  qed (use lo hi E False in simp_all)
qed

lemma rnd_zero [simp]: "rnd f 0 = Fin 0"
proof -
  have "(0::real) < 2 powi (emax f + 1)"
    by simp
  then have "\<not> 2 powi (emax f + 1) \<le> (0::real)"
    by linarith
  then show ?thesis
    by (simp add: rnd_def round_even_def)
qed

text \<open>Rounding does not cross a power of two that the format has.\<close>

lemma rnd_bounded:
  assumes r: "\<bar>r\<bar> \<le> 2 powi k" and k: "emin f \<le> k" "k \<le> emax f"
  obtains y where "rnd f r = Fin y" and "\<bar>y\<bar> \<le> 2 powi k"
    and "\<bar>y - r\<bar> \<le> quantum f \<bar>r\<bar> / 2"
proof -
  have "(2::real) powi k < 2 powi (emax f + 1)"
    using k by (simp add: pow2_less_iff)
  with r have in_range: "\<bar>r\<bar> < 2 powi (emax f + 1)"
    by linarith
  obtain E where q: "quantum f \<bar>r\<bar> = 2 powi (E - int (prec f) + 1)"
    and E: "emin f \<le> E" "E \<le> emax f"
    and normal: "2 powi emin f \<le> \<bar>r\<bar> \<Longrightarrow> 2 powi E \<le> \<bar>r\<bar> \<and> \<bar>r\<bar> < 2 powi (E + 1)"
    and subnormal: "\<bar>r\<bar> < 2 powi emin f \<Longrightarrow> E = emin f"
    using quantum_exponent [of "\<bar>r\<bar>" f] in_range by (metis abs_ge_zero)
  have Ek: "E \<le> k"
  proof (cases "\<bar>r\<bar> < 2 powi emin f")
    case True
    with subnormal k show ?thesis by simp
  next
    case False
    with normal have "(2::real) powi E \<le> 2 powi k"
      using r by force
    then show ?thesis
      by (simp add: pow2_le_iff)
  qed
  let ?q = "quantum f \<bar>r\<bar>"
  define m where "m = round_even (r / ?q)"
  define y where "y = of_int m * ?q"
  have qpos: "0 < ?q"
    by (simp add: q)
  define N :: int where "N = 2 ^ nat (k - E + int (prec f) - 1)"
  have "real_of_int N = 2 powi (k - E + int (prec f) - 1)"
    using Ek prec_pos [of f] by (simp add: N_def power_int_def)
  also have "\<dots> = 2 powi k / ?q"
    by (simp add: q power_int_diff power_int_add field_simps)
  finally have N: "real_of_int N = 2 powi k / ?q" .
  have "r / ?q \<le> real_of_int N" "real_of_int (- N) \<le> r / ?q"
    using r qpos by (simp_all add: N field_simps abs_le_iff)
  then have "m \<le> N" "- N \<le> m"
    unfolding m_def by (simp_all add: round_even_le round_even_ge del: of_int_minus)
  then have "\<bar>real_of_int m\<bar> \<le> real_of_int N"
    by linarith
  then have "\<bar>real_of_int m\<bar> * ?q \<le> real_of_int N * ?q"
    using qpos by (simp add: mult_right_mono)
  then have yk: "\<bar>y\<bar> \<le> 2 powi k"
    using qpos by (simp add: y_def abs_mult N)
  have "\<bar>real_of_int m - r / ?q\<bar> \<le> 1 / 2"
    unfolding m_def by (rule round_even_error)
  then have "\<bar>real_of_int m - r / ?q\<bar> * ?q \<le> 1 / 2 * ?q"
    using qpos by (simp add: mult_right_mono)
  moreover have "\<bar>real_of_int m - r / ?q\<bar> * ?q = \<bar>y - r\<bar>"
    using qpos by (simp add: y_def abs_scale)
  ultimately have err: "\<bar>y - r\<bar> \<le> ?q / 2"
    by simp
  have "\<not> 2 powi (emax f + 1) \<le> \<bar>y\<bar>"
    using yk \<open>2 powi k < 2 powi (emax f + 1)\<close> by linarith
  then have "rnd f r = Fin y"
    using in_range by (simp add: rnd_def Let_def y_def m_def)
  then show ?thesis
    using yk err by (rule that)
qed


lemma rnd_bounded_ex:
  assumes "\<bar>r\<bar> \<le> 2 powi k" and "emin f \<le> k" and "k \<le> emax f"
  shows "\<exists>y. rnd f r = Fin y \<and> \<bar>y\<bar> \<le> 2 powi k \<and> \<bar>y - r\<bar> \<le> quantum f \<bar>r\<bar> / 2"
  using rnd_bounded [OF assms] by metis

lemma emin32: "emin Binary32 = - 126"
  by (simp add: emin_def)

lemma fmul_bounded:
  assumes "\<bar>a\<bar> \<le> 2 powi i" and "\<bar>b\<bar> \<le> 2 powi j" and "- 126 \<le> i + j" and "i + j \<le> 127"
  shows "\<exists>c. fmul Binary32 (Fin a) (Fin b) = Fin c \<and> \<bar>c\<bar> \<le> 2 powi (i + j)"
proof -
  have "\<bar>a * b\<bar> \<le> 2 powi i * 2 powi j"
    unfolding abs_mult using assms(1,2) by (intro mult_mono) simp_all
  then have "\<bar>a * b\<bar> \<le> 2 powi (i + j)"
    by (simp add: power_int_add)
  moreover have "emin Binary32 \<le> i + j" "i + j \<le> emax Binary32"
    using assms(3,4) by (simp_all add: emin32)
  ultimately show ?thesis
    using rnd_bounded_ex [of "a * b" "i + j" Binary32] by auto
qed

lemma fsub_bounded:
  assumes "\<bar>a\<bar> \<le> 2 powi i" and "\<bar>b\<bar> \<le> 2 powi i" and "- 127 \<le> i" and "i \<le> 126"
  shows "\<exists>c. fsub Binary32 (Fin a) (Fin b) = Fin c \<and> \<bar>c\<bar> \<le> 2 powi (i + 1)"
proof -
  have "\<bar>a + - b\<bar> \<le> 2 powi i + 2 powi i"
    using assms(1,2) by linarith
  then have "\<bar>a + - b\<bar> \<le> 2 powi (i + 1)"
    by (simp add: power_int_add)
  moreover have "emin Binary32 \<le> i + 1" "i + 1 \<le> emax Binary32"
    using assms(3,4) by (simp_all add: emin32)
  ultimately show ?thesis
    using rnd_bounded_ex [of "a + - b" "i + 1" Binary32] by (auto simp: fsub_def)
qed

lemma float_of_index_bounded:
  assumes "int n < 2 ^ 31"
  shows "\<exists>a. float_of_int (int n) = Fin a \<and> \<bar>a\<bar> \<le> 2 powi 32"
proof -
  have "real n < 2 ^ 31"
    using assms by (metis of_int_of_nat_eq of_int_less_numeral_power_cancel_iff)
  then have "\<bar>real_of_int (int n)\<bar> \<le> 2 powi 32"
    by simp
  moreover have "emin Binary32 \<le> 32" "32 \<le> emax Binary32"
    by (simp_all add: emin32)
  ultimately show ?thesis
    unfolding float_of_int_def
    using rnd_bounded_ex [of "real_of_int (int n)" 32 Binary32] by blast
qed

text \<open>The coordinate \<open>(n - center) * depth * scale\<close> of \<open>convert\<close> is finite when its three
  operands are small.\<close>

lemma coordinate_finite:
  assumes n: "int n < 2 ^ 31" and "small center" and "small depth" and "small scale"
  shows "is_finite (fmul Binary32 (fmul Binary32 (fsub Binary32 (float_of_int (int n)) center) depth) scale)"
proof -
  from assms(2) obtain c where c: "center = Fin c" "\<bar>c\<bar> \<le> 2 powi 32"
    by (cases center) auto
  from assms(3) obtain d where d: "depth = Fin d" "\<bar>d\<bar> \<le> 2 powi 32"
    by (cases depth) auto
  from assms(4) obtain k where k: "scale = Fin k" "\<bar>k\<bar> \<le> 2 powi 32"
    by (cases scale) auto
  from n obtain a where a: "float_of_int (int n) = Fin a" "\<bar>a\<bar> \<le> 2 powi 32"
    using float_of_index_bounded by blast
  obtain s where s: "fsub Binary32 (Fin a) (Fin c) = Fin s" "\<bar>s\<bar> \<le> 2 powi (32 + 1)"
    using fsub_bounded [OF a(2) c(2)] by auto
  obtain p where p: "fmul Binary32 (Fin s) (Fin d) = Fin p" "\<bar>p\<bar> \<le> 2 powi (32 + 1 + 32)"
    using fmul_bounded [OF s(2) d(2)] by auto
  obtain q where q: "fmul Binary32 (Fin p) (Fin k) = Fin q"
    using fmul_bounded [OF p(2) k(2)] by auto
  show ?thesis
    unfolding a(1) c(1) d(1) k(1) s(1) p(1) q by simp
qed


section \<open>Running the model on the example frames\<close>

lemma expo_aux_numeral:
  "expo_aux (numeral n) a e =
     (if 2 \<le> a then expo_aux (pred_numeral n) (a / 2) (e + 1)
      else if a < 1 then expo_aux (pred_numeral n) (a * 2) (e - 1)
      else e)"
  by (simp add: numeral_eq_Suc)

lemmas float_eval = rnd_def quantum_def emin_def round_even_def inf_of_def expo_aux_numeral
  float_of_bits_def float_of_int_def fsub_def

lemmas enc_eval = TYPE_8UC1_def TYPE_16UC1_def TYPE_32SC1_def TYPE_32FC1_def MONO8_def

lemmas ref_eval = ref_toCvShare_def ref_toCvCopy_def ref_toImageMsg_def
  ref_rowRange_def ref_resize_def elem_size_def mat_of_image_def

lemmas pixel_eval = peek_def uint16_t_def float_t_def int32_t_def uint8_t_def le16_def le32_def

lemma ex_resize: "imageCb_resize ref_env ex_depth ex_label ex_info s = (Inr ex_label, s)"
  by (simp add: imageCb_resize_def ex_depth_def ex_label_def)

lemma ex_encoding: "imageCb_encoding ref_env ex_label = Inr ex_label"
  by (simp add: imageCb_encoding_def ref_env_def ref_eval enc_eval ex_label_def upt_conv_Cons)

lemma ex_locals:
  "convert_locals ref_env uint16_t ref_traits_u16 ex_info =
     \<lparr>center_x = Fin (1 / 2), center_y = Fin 0,
      constant_x = Fin (10995117 / 1099511627776),
      constant_y = Fin (10995117 / 1099511627776), bad_point = NaN\<rparr>"
  by (simp add: convert_locals_def ref_env_def ref_traits_u16_def ex_info_def uint16_t_def float_eval)

lemma ex_rows:
  "convert_rows uint16_t ref_traits_u16 int32_t c (data ex_depth) (data ex_label) 2 2 2 0 0 [0..<1]
   = Some [fill_point uint16_t ref_traits_u16 int32_t c 0 0 1000 7,
           fill_point uint16_t ref_traits_u16 int32_t c 0 1 0 0xFFFFFFFF]"
  by (simp add: ex_depth_def ex_label_def pixel_eval upt_conv_Cons)

lemma ex_point0:
  "fill_point uint16_t ref_traits_u16 int32_t
     \<lparr>center_x = Fin (1 / 2), center_y = Fin 0,
      constant_x = Fin (10995117 / 1099511627776),
      constant_y = Fin (10995117 / 1099511627776), bad_point = NaN\<rparr> 0 0 1000 7
   = \<lparr>px = Fin (- (10737419 / 2147483648)), py = Fin 0, pz = Fin 1, plabel = 7\<rparr>"
  by (simp add: fill_point_def ref_traits_u16_def uint16_t_def int32_t_def float_eval)

lemma ex_point1:
  "fill_point uint16_t ref_traits_u16 int32_t c 0 1 0 0xFFFFFFFF
   = \<lparr>px = bad_point c, py = bad_point c, pz = bad_point c, plabel = 0xFFFFFFFF\<rparr>"
  by (simp add: fill_point_def ref_traits_u16_def uint16_t_def int32_t_def)


lemma big_ratio:
  "fdiv Binary32 (float_of_int (uint (width ex_big_depth))) (float_of_int (uint (width ex_small_label)))
   = Fin 2"
  by (simp add: ex_big_depth_def ex_small_label_def float_eval)

lemma big_rows_count:
  "int_of_float (fdiv Binary32 (float_of_int (uint (height ex_big_depth))) (Fin 2)) = Some 1"
  by (simp add: ex_big_depth_def float_eval)

lemma big_share:
  "ref_toCvShare ex_small_label (encoding ex_small_label)
   = Some \<lparr>cv_header = ex_header\<lparr>stamp := 6\<rparr>, cv_encoding = TYPE_32SC1, cv_mat = [[[7, 0, 0, 0]]]\<rparr>"
  by (simp add: ex_small_label_def ref_eval enc_eval upt_conv_Cons)

lemma big_crop: "ref_rowRange [[[7, 0, 0, 0]]] 0 1 = Some [[[7, 0, 0, 0 :: byte]]]"
  by (simp add: ref_rowRange_def)

lemma ref_linear_refused: "ref_resize m sz fx fy INTER_LINEAR = None"
  by (simp add: ref_resize_def split: list.splits)

lemma big_resize:
  "imageCb_resize ref_env ex_big_depth ex_small_label ex_info s
   = (Inl OpenCVException, s\<lparr>model := Some (scale_info ex_info ex_big_depth (Fin 2))\<rparr>)"
  unfolding imageCb_resize_def big_ratio Let_def
  by (simp add: ref_env_def big_rows_count big_share big_crop ref_linear_refused)
     (simp add: ex_big_depth_def ex_small_label_def)

lemma ex_rows_run:
  "fst (imageCb ref_env ex_depth ex_label ex_info ex_nodelet) = None"
  by (simp add: imageCb_def ex_resize ex_encoding imageCb_convert_def convert_def int_of_size_def)
     (simp add: ex_depth_def ex_label_def ex_header_def new_cloud_def
        setPointCloud2Fields_def uint16_t_def int32_t_def
        ex_rows [unfolded uint16_t_def int32_t_def ex_depth_def ex_label_def, simplified]
        enc_eval ref_env_def)

lemma other_frame:
  "frame_id (header ex_depth) \<noteq> frame_id (header (ex_label\<lparr>header := ex_header\<lparr>frame_id := ''arm''\<rparr>\<rparr>))"
  by (simp add: ex_depth_def ex_header_def)

lemma mono_depth:
  "encoding (ex_depth\<lparr>encoding := MONO8\<rparr>) \<noteq> TYPE_16UC1 \<and> encoding (ex_depth\<lparr>encoding := MONO8\<rparr>) \<noteq> TYPE_32FC1"
  by (simp add: enc_eval)

lemma rgb_label:
  "frame_id (header ex_depth) = frame_id (header (ex_label\<lparr>encoding := ''rgb8''\<rparr>))
   \<and> imageCb_resize ref_env ex_depth (ex_label\<lparr>encoding := ''rgb8''\<rparr>) ex_info (ex_nodelet\<lparr>model := Some ex_info\<rparr>)
       = (Inr (ex_label\<lparr>encoding := ''rgb8''\<rparr>), ex_nodelet\<lparr>model := Some ex_info\<rparr>)
   \<and> toCvCopy ref_env (ex_label\<lparr>encoding := ''rgb8''\<rparr>) TYPE_32SC1 = None"
  by (simp add: imageCb_resize_def ex_depth_def ex_label_def ref_env_def ref_eval enc_eval)

lemma ref_copy_contract:
  "toCvCopy ref_env img TYPE_32SC1 = Some cv \<Longrightarrow> encoding (toImageMsg ref_env cv) = TYPE_32SC1"
  by (auto simp: ref_env_def ref_toCvCopy_def ref_toCvShare_def ref_toImageMsg_def Let_def
           split: option.splits if_splits)

lemma ex_label8_converted:
  "imageCb_encoding ref_env ex_label8
   = Inr (ex_label8\<lparr>encoding := TYPE_32SC1, step := 8, data := [7, 0, 0, 0, 9, 0, 0, 0]\<rparr>)"
  by (simp add: imageCb_encoding_def ref_env_def ref_eval enc_eval ex_label8_def upt_conv_Cons)

lemma ex_convert:
  "convert ref_env uint16_t ref_traits_u16 int32_t (ex_nodelet\<lparr>model := Some ex_info\<rparr>)
     ex_depth ex_label (new_cloud ex_depth) = Inr ex_cloud"
proof -
  have w: "nat (sint (cloud_width (new_cloud ex_depth))) = 2"
    "nat (sint (cloud_height (new_cloud ex_depth))) = 1"
    "int_of_size (unat (step ex_depth) div dsize uint16_t) = 2"
    "int_of_size (unat (step ex_label) div lsize int32_t) = 2"
    by (simp_all add: new_cloud_def setPointCloud2Fields_def ex_depth_def ex_label_def
        int_of_size_def uint16_t_def int32_t_def)
  have m: "model (ex_nodelet\<lparr>model := Some ex_info\<rparr>) = Some ex_info"
    by simp
  show ?thesis
    unfolding convert_def m option.case w ex_rows ex_locals ex_point0 ex_point1
    by (simp add: ex_cloud_def)
qed

lemma ex_samples:
  "depth_at uint16_t ex_depth 0 1 = Some 0" "label_at int32_t ex_label 0 1 = Some 0xFFFFFFFF"
  "depth_at uint16_t ex_depth 0 0 = Some 1000" "label_at int32_t ex_label 0 0 = Some 7"
  by (simp_all add: depth_at_def label_at_def ex_depth_def ex_label_def pixel_eval int_of_size_def)

lemma far_bits: "float_of_bits (le32 [0, 0, 0x40, 0x7F]) = Fin (3 * 2 ^ 126)"
  by (simp add: le32_def float_of_bits_def)

lemma far_resize: "imageCb_resize ref_env ex_far_depth ex_label3 ex_unit_info s = (Inr ex_label3, s)"
  by (simp add: imageCb_resize_def ex_far_depth_def ex_label3_def)

lemma far_encoding: "imageCb_encoding ref_env ex_label3 = Inr ex_label3"
  by (simp add: imageCb_encoding_def ref_env_def ref_eval enc_eval ex_label3_def upt_conv_Cons)

lemma far_locals:
  "convert_locals ref_env float_t ref_traits_f32 ex_unit_info =
     \<lparr>center_x = Fin (1 / 2), center_y = Fin (1 / 2), constant_x = Fin 1, constant_y = Fin 1,
      bad_point = NaN\<rparr>"
  by (simp add: convert_locals_def Let_def ref_env_def ref_traits_f32_def ex_unit_info_def float_t_def float_eval)

lemma far_rows:
  "convert_rows float_t ref_traits_f32 int32_t c (data ex_far_depth) (data ex_label3) 3 3 3 0 0 [0..<1]
   = Some [fill_point float_t ref_traits_f32 int32_t c 0 0 (Fin (3 * 2 ^ 126)) 7,
           fill_point float_t ref_traits_f32 int32_t c 0 1 (Fin (3 * 2 ^ 126)) 7,
           fill_point float_t ref_traits_f32 int32_t c 0 2 (Fin (3 * 2 ^ 126)) 7]"
proof -
  have rd: "dread float_t [0, 0, 0x40, 0x7F] = Fin (3 * 2 ^ 126)"
    using far_bits by (simp add: float_t_def)
  have sz: "dsize float_t = 4" "lsize int32_t = 4" "lread int32_t [7, 0, 0, 0] = 7"
    by (simp_all add: float_t_def int32_t_def le32_def)
  show ?thesis
    by (simp add: ex_far_depth_def ex_label3_def peek_def sz rd upt_conv_Cons numeral_2_eq_2)
qed

lemma far_point:
  "fill_point float_t ref_traits_f32 int32_t
     \<lparr>center_x = Fin (1 / 2), center_y = Fin (1 / 2), constant_x = Fin 1, constant_y = Fin 1,
      bad_point = NaN\<rparr> 0 2 (Fin (3 * 2 ^ 126)) 7
   = \<lparr>px = PInf, py = Fin (- (3 * 2 ^ 125)), pz = Fin (3 * 2 ^ 126), plabel = 7\<rparr>"
  by (simp add: fill_point_def ref_traits_f32_def float_t_def int32_t_def float_eval)


lemma far_convert:
  assumes m: "model s = Some ex_unit_info"
  shows "imageCb_convert ref_env s ex_far_depth ex_label3 (new_cloud ex_far_depth)
         = Inr ((new_cloud ex_far_depth)\<lparr>points :=
               [fill_point float_t ref_traits_f32 int32_t
                  (convert_locals ref_env float_t ref_traits_f32 ex_unit_info) 0 0 (Fin (3 * 2 ^ 126)) 7,
                fill_point float_t ref_traits_f32 int32_t
                  (convert_locals ref_env float_t ref_traits_f32 ex_unit_info) 0 1 (Fin (3 * 2 ^ 126)) 7,
                \<lparr>px = PInf, py = Fin (- (3 * 2 ^ 125)), pz = Fin (3 * 2 ^ 126), plabel = 7\<rparr>]\<rparr>)"
proof -
  have w: "nat (sint (cloud_width (new_cloud ex_far_depth))) = 3"
    "nat (sint (cloud_height (new_cloud ex_far_depth))) = 1"
    "int_of_size (unat (step ex_far_depth) div dsize float_t) = 3"
    "int_of_size (unat (step ex_label3) div lsize int32_t) = 3"
    by (simp_all add: new_cloud_def setPointCloud2Fields_def ex_far_depth_def ex_label3_def
        int_of_size_def float_t_def int32_t_def)
  have e: "encoding ex_far_depth = TYPE_32FC1" "encoding ex_label3 = TYPE_32SC1"
    by (simp_all add: ex_far_depth_def ex_label3_def)
  have t: "traits_f32 ref_env = ref_traits_f32"
    by (simp add: ref_env_def)
  have c: "convert ref_env float_t ref_traits_f32 int32_t s
             ex_far_depth ex_label3 (new_cloud ex_far_depth)
           = Inr ((new_cloud ex_far_depth)\<lparr>points :=
               [fill_point float_t ref_traits_f32 int32_t
                  (convert_locals ref_env float_t ref_traits_f32 ex_unit_info) 0 0 (Fin (3 * 2 ^ 126)) 7,
                fill_point float_t ref_traits_f32 int32_t
                  (convert_locals ref_env float_t ref_traits_f32 ex_unit_info) 0 1 (Fin (3 * 2 ^ 126)) 7,
                \<lparr>px = PInf, py = Fin (- (3 * 2 ^ 125)), pz = Fin (3 * 2 ^ 126), plabel = 7\<rparr>]\<rparr>)"
    unfolding convert_def m option.case w far_rows far_locals far_point
    by simp
  have "imageCb_convert ref_env s ex_far_depth ex_label3 (new_cloud ex_far_depth)
           = convert ref_env float_t ref_traits_f32 int32_t s
               ex_far_depth ex_label3 (new_cloud ex_far_depth)"
    by (simp add: imageCb_convert_def e t) (simp add: enc_eval)
  with c show ?thesis
    by simp
qed

lemma far_run:
  "imageCb ref_env ex_far_depth ex_label3 ex_unit_info ex_nodelet =
     (None, \<lparr>model = Some ex_unit_info,
             published = [(new_cloud ex_far_depth)\<lparr>points :=
               [fill_point float_t ref_traits_f32 int32_t
                  (convert_locals ref_env float_t ref_traits_f32 ex_unit_info) 0 0 (Fin (3 * 2 ^ 126)) 7,
                fill_point float_t ref_traits_f32 int32_t
                  (convert_locals ref_env float_t ref_traits_f32 ex_unit_info) 0 1 (Fin (3 * 2 ^ 126)) 7,
                \<lparr>px = PInf, py = Fin (- (3 * 2 ^ 125)), pz = Fin (3 * 2 ^ 126), plabel = 7\<rparr>]\<rparr>]\<rparr>)"
proof -
  have e: "frame_id (header ex_far_depth) = frame_id (header ex_label3)"
    by (simp add: ex_far_depth_def ex_label3_def)
  show ?thesis
    unfolding imageCb_def
    by (simp add: e far_resize far_encoding far_convert ex_nodelet_def)
qed

section \<open>The structure of the callback\<close>

lemma resize_published:
  "published (snd (imageCb_resize env depth_msg label_msg info_msg s)) = published s"
  by (simp add: imageCb_resize_def Let_def split: option.splits)

lemma resize_result_state_free:
  "fst (imageCb_resize env depth_msg label_msg info_msg s)
   = fst (imageCb_resize env depth_msg label_msg info_msg s')"
  by (simp add: imageCb_resize_def Let_def split: option.splits)

lemma resize_model:
  "model (snd (imageCb_resize env depth_msg label_msg info_msg s)) =
     (if width depth_msg \<noteq> width label_msg \<or> height depth_msg \<noteq> height label_msg
      then Some (scale_info info_msg depth_msg
                   (fdiv Binary32 (float_of_int (uint (width depth_msg)))
                                  (float_of_int (uint (width label_msg)))))
      else model s)"
  by (simp add: imageCb_resize_def Let_def split: option.splits)

lemma convert_model_only:
  "model s = model s' \<Longrightarrow>
   convert env T tr T2 s depth_msg label_msg cloud_msg
   = convert env T tr T2 s' depth_msg label_msg cloud_msg"
  by (simp add: convert_def)

lemma imageCb_convert_model_only:
  "model s = model s' \<Longrightarrow>
   imageCb_convert env s depth_msg label_msg cloud_msg
   = imageCb_convert env s' depth_msg label_msg cloud_msg"
  by (simp add: imageCb_convert_def convert_model_only [of s s'])

lemma convert_keeps_fields:
  "convert env T tr T2 s depth_msg label_msg cloud_msg = Inr c \<Longrightarrow>
   \<exists>ps. c = cloud_msg\<lparr>points := ps\<rparr>"
  by (auto simp: convert_def split: option.splits)

lemma imageCb_convert_keeps_fields:
  "imageCb_convert env s depth_msg label_msg cloud_msg = Inr c \<Longrightarrow>
   \<exists>ps. c = cloud_msg\<lparr>points := ps\<rparr>"
  by (auto simp: imageCb_convert_def dest: convert_keeps_fields split: if_splits)

text \<open>The callback in one equation per way of ending.\<close>

lemma imageCb_cases:
  obtains
    (mismatch) "frame_id (header depth_msg) \<noteq> frame_id (header label_msg)"
      "imageCb env depth_msg label_msg info_msg s = (Some FrameIdMismatch, s)"
  | (resize) e s1 where "frame_id (header depth_msg) = frame_id (header label_msg)"
      "imageCb_resize env depth_msg label_msg info_msg (s\<lparr>model := Some info_msg\<rparr>) = (Inl e, s1)"
      "imageCb env depth_msg label_msg info_msg s = (Some e, s1)"
  | (encoding) l1 s1 where "frame_id (header depth_msg) = frame_id (header label_msg)"
      "imageCb_resize env depth_msg label_msg info_msg (s\<lparr>model := Some info_msg\<rparr>) = (Inr l1, s1)"
      "toCvCopy env l1 TYPE_32SC1 = None"
      "imageCb env depth_msg label_msg info_msg s = (Some UnsupportedLabelEncoding, s1)"
  | (convert) l1 s1 cv e where "frame_id (header depth_msg) = frame_id (header label_msg)"
      "imageCb_resize env depth_msg label_msg info_msg (s\<lparr>model := Some info_msg\<rparr>) = (Inr l1, s1)"
      "toCvCopy env l1 TYPE_32SC1 = Some cv"
      "imageCb_convert env s1 depth_msg (toImageMsg env cv) (new_cloud depth_msg) = Inl e"
      "imageCb env depth_msg label_msg info_msg s = (Some e, s1)"
  | (publish) l1 s1 cv c where "frame_id (header depth_msg) = frame_id (header label_msg)"
      "imageCb_resize env depth_msg label_msg info_msg (s\<lparr>model := Some info_msg\<rparr>) = (Inr l1, s1)"
      "toCvCopy env l1 TYPE_32SC1 = Some cv"
      "imageCb_convert env s1 depth_msg (toImageMsg env cv) (new_cloud depth_msg) = Inr c"
      "imageCb env depth_msg label_msg info_msg s = (None, s1\<lparr>published := published s1 @ [c]\<rparr>)"
proof (cases "frame_id (header depth_msg) = frame_id (header label_msg)")
  case False
  then show ?thesis using mismatch by (simp add: imageCb_def)
next
  case same: True
  obtain r s1 where rs: "imageCb_resize env depth_msg label_msg info_msg (s\<lparr>model := Some info_msg\<rparr>) = (r, s1)"
    by (cases "imageCb_resize env depth_msg label_msg info_msg (s\<lparr>model := Some info_msg\<rparr>)")
  show ?thesis
  proof (cases r)
    case (Inl e)
    with same rs show ?thesis using resize by (simp add: imageCb_def)
  next
    case (Inr l1)
    have guard: "encoding l1 \<noteq> TYPE_32SC1 \<or> encoding l1 \<noteq> TYPE_8UC1"
      by (auto simp: TYPE_32SC1_def TYPE_8UC1_def)
    show ?thesis
    proof (cases "toCvCopy env l1 TYPE_32SC1")
      case None
      with same rs Inr guard show ?thesis using encoding [of l1 s1]
        by (simp add: imageCb_def imageCb_encoding_def)
    next
      case (Some cv)
      show ?thesis
      proof (cases "imageCb_convert env s1 depth_msg (toImageMsg env cv) (new_cloud depth_msg)")
        case (Inl e)
        with same rs Inr guard Some show ?thesis using convert [of l1 s1 cv e]
          by (simp add: imageCb_def imageCb_encoding_def)
      next
        case (Inr c)
        with same rs \<open>r = Inr l1\<close> guard Some show ?thesis using publish [of l1 s1 cv c]
          by (simp add: imageCb_def imageCb_encoding_def)
      qed
    qed
  qed
qed

section \<open>The loops of \<open>convert\<close>\<close>

lemma convert_cols_nth:
  assumes "convert_cols T tr T2 c dd ld v dr lr us = Some ps"
  shows "length ps = length us
       \<and> (\<forall>k<length us. \<exists>d l.
             peek (dsize T) (dread T) dd (dr + int (us ! k)) = Some d
           \<and> peek (lsize T2) (lread T2) ld (lr + int (us ! k)) = Some l
           \<and> ps ! k = fill_point T tr T2 c v (us ! k) d l)"
  using assms
proof (induction us arbitrary: ps)
  case Nil
  then show ?case by simp
next
  case (Cons u us)
  from Cons.prems obtain d l qs where
    d: "peek (dsize T) (dread T) dd (dr + int u) = Some d"
    and l: "peek (lsize T2) (lread T2) ld (lr + int u) = Some l"
    and qs: "convert_cols T tr T2 c dd ld v dr lr us = Some qs"
    and ps: "ps = fill_point T tr T2 c v u d l # qs"
    by (auto split: option.splits)
  from Cons.IH [OF qs] d l show ?case
    by (auto simp: ps nth_Cons split: nat.splits)
qed

lemma convert_rows_nth:
  assumes "convert_rows T tr T2 c dd ld w rs lrs dr lr vs = Some ps"
  shows "length ps = length vs * w
       \<and> (\<forall>j<length vs. \<forall>u<w. \<exists>d l.
             peek (dsize T) (dread T) dd (dr + int j * rs + int u) = Some d
           \<and> peek (lsize T2) (lread T2) ld (lr + int j * lrs + int u) = Some l
           \<and> ps ! (j * w + u) = fill_point T tr T2 c (vs ! j) u d l)"
  using assms
proof (induction vs arbitrary: ps dr lr)
  case Nil
  then show ?case by simp
next
  case (Cons v vs)
  from Cons.prems obtain row rest where
    row: "convert_cols T tr T2 c dd ld v dr lr [0..<w] = Some row"
    and rest: "convert_rows T tr T2 c dd ld w rs lrs (dr + rs) (lr + lrs) vs = Some rest"
    and ps: "ps = row @ rest"
    by (auto split: option.splits)
  note r = convert_cols_nth [OF row]
  note ih = Cons.IH [OF rest]
  have len: "length row = w" using r by simp
  show ?case
  proof (intro conjI allI impI)
    show "length ps = length (v # vs) * w"
      using len ih by (simp add: ps)
  next
    fix j u
    assume j: "j < length (v # vs)" and u: "u < w"
    show "\<exists>d l. peek (dsize T) (dread T) dd (dr + int j * rs + int u) = Some d
           \<and> peek (lsize T2) (lread T2) ld (lr + int j * lrs + int u) = Some l
           \<and> ps ! (j * w + u) = fill_point T tr T2 c ((v # vs) ! j) u d l"
    proof (cases j)
      case 0
      with r u len show ?thesis
        by (auto simp: ps nth_append)
    next
      case (Suc i)
      with j have i: "i < length vs" by simp
      from ih i u obtain d l where
        "peek (dsize T) (dread T) dd (dr + rs + int i * rs + int u) = Some d"
        "peek (lsize T2) (lread T2) ld (lr + lrs + int i * lrs + int u) = Some l"
        "rest ! (i * w + u) = fill_point T tr T2 c (vs ! i) u d l"
        by blast
      moreover have "ps ! (j * w + u) = rest ! (i * w + u)"
        using len by (simp add: ps Suc nth_append)
      ultimately show ?thesis
        by (auto simp: Suc algebra_simps)
    qed
  qed
qed

lemma convert_point:
  assumes conv: "convert env T tr T2 s depth_msg label_msg cloud_msg = Inr cloud'"
    and v: "v < nat (sint (cloud_height cloud_msg))" and u: "u < nat (sint (cloud_width cloud_msg))"
  shows "\<exists>cam d l. model s = Some cam
      \<and> depth_at T depth_msg v u = Some d \<and> label_at T2 label_msg v u = Some l
      \<and> points cloud' ! (v * nat (sint (cloud_width cloud_msg)) + u)
          = fill_point T tr T2 (convert_locals env T tr cam) v u d l"
proof -
  from conv obtain cam ps where cam: "model s = Some cam"
    and ps: "convert_rows T tr T2 (convert_locals env T tr cam) (data depth_msg) (data label_msg)
                  (nat (sint (cloud_width cloud_msg)))
                  (int_of_size (unat (step depth_msg) div dsize T))
                  (int_of_size (unat (step label_msg) div lsize T2)) 0 0
                  [0..<nat (sint (cloud_height cloud_msg))] = Some ps"
    and c: "cloud' = cloud_msg\<lparr>points := ps\<rparr>"
    by (auto simp: convert_def split: option.splits)
  from convert_rows_nth [OF ps] v u show ?thesis
    by (simp add: cam c depth_at_def label_at_def)
qed

lemma convert_length:
  assumes "convert env T tr T2 s depth_msg label_msg cloud_msg = Inr cloud'"
  shows "length (points cloud') = nat (sint (cloud_height cloud_msg)) * nat (sint (cloud_width cloud_msg))"
  using assms convert_rows_nth
  by (fastforce simp: convert_def split: option.splits)

section \<open>Properties\<close>

text \<open>C3: when a triple is accepted, the published cloud has the width and the height of the
  depth image (whatever the size of the label image), the four fields \<open>x\<close>, \<open>y\<close>, \<open>z\<close>
  (32-bit floats) and \<open>label\<close> (unsigned 32-bit), \<open>is_dense = false\<close>, and the header of
  the depth image.\<close>

theorem cloud_layout_from_depth:
  assumes "fst (imageCb env depth_msg label_msg info_msg s) = None"
  shows "\<exists>c. published (snd (imageCb env depth_msg label_msg info_msg s)) = published s @ [c]
           \<and> cloud_width c = width depth_msg \<and> cloud_height c = height depth_msg
           \<and> cloud_header c = header depth_msg \<and> is_dense c = False
           \<and> cloud_fields c =
               [\<lparr>field_name = ''x'', field_offset = 0, field_datatype = FLOAT32, field_count = 1\<rparr>,
                \<lparr>field_name = ''y'', field_offset = 4, field_datatype = FLOAT32, field_count = 1\<rparr>,
                \<lparr>field_name = ''z'', field_offset = 8, field_datatype = FLOAT32, field_count = 1\<rparr>,
                \<lparr>field_name = ''label'', field_offset = 12, field_datatype = UINT32, field_count = 1\<rparr>]"
proof (cases rule: imageCb_cases [of depth_msg label_msg env info_msg s])
  case (publish l1 s1 cv c)
  have "published s1 = published s"
    using resize_published [of env depth_msg label_msg info_msg "s\<lparr>model := Some info_msg\<rparr>"]
    by (simp add: publish(2))
  moreover obtain ps where "c = (new_cloud depth_msg)\<lparr>points := ps\<rparr>"
    using imageCb_convert_keeps_fields [OF publish(4)] by blast
  ultimately show ?thesis
    using publish(5) by (simp add: new_cloud_def setPointCloud2Fields_def)
qed (use assms in simp_all)

theorem cloud_layout_from_depth_witness:
  "fst (imageCb ref_env ex_depth ex_label ex_info ex_nodelet) = None
   \<and> (\<exists>c. published (snd (imageCb ref_env ex_depth ex_label ex_info ex_nodelet)) = [c]
          \<and> cloud_width c = 2 \<and> cloud_height c = 1
          \<and> cloud_header c = ex_header \<and> header ex_label \<noteq> ex_header
          \<and> is_dense c = False \<and> length (cloud_fields c) = 4)"
proof -
  have d: "width ex_depth = 2" "height ex_depth = 1" "header ex_depth = ex_header"
    by (simp_all add: ex_depth_def)
  have l: "header ex_label \<noteq> ex_header"
    by (simp add: ex_label_def ex_header_def)
  have n: "published ex_nodelet = []"
    by (simp add: ex_nodelet_def)
  show ?thesis
    using cloud_layout_from_depth [OF ex_rows_run] ex_rows_run by (auto simp: d l n)
qed

text \<open>C6: when the depth image and the label image have the same width and height, the
  resizing step returns the label image as it is and leaves the camera model alone: the
  model is the one made from the camera info of the triple.\<close>

theorem resize_identity_on_equal_size:
  assumes "width depth_msg = width label_msg" and "height depth_msg = height label_msg"
  shows "imageCb_resize env depth_msg label_msg info_msg s = (Inr label_msg, s)
         \<and> (frame_id (header depth_msg) = frame_id (header label_msg) \<longrightarrow>
              model (snd (imageCb env depth_msg label_msg info_msg s)) = Some info_msg)"
proof -
  have eq: "imageCb_resize env depth_msg label_msg info_msg t = (Inr label_msg, t)" for t
    using assms by (simp add: imageCb_resize_def)
  show ?thesis
    by (simp add: eq imageCb_def split: sum.splits)
qed

theorem resize_identity_on_equal_size_witness:
  "width ex_depth = width ex_label \<and> height ex_depth = height ex_label
   \<and> frame_id (header ex_depth) = frame_id (header ex_label)
   \<and> imageCb_resize ref_env ex_depth ex_label ex_info ex_nodelet = (Inr ex_label, ex_nodelet)
   \<and> model (snd (imageCb ref_env ex_depth ex_label ex_info ex_nodelet)) = Some ex_info"
proof -
  have eq: "width ex_depth = width ex_label" "height ex_depth = height ex_label"
    "frame_id (header ex_depth) = frame_id (header ex_label)"
    by (simp_all add: ex_depth_def ex_label_def)
  show ?thesis
    using resize_identity_on_equal_size [OF eq(1,2), of ref_env ex_info ex_nodelet] eq by simp
qed

text \<open>C7: a cloud is published exactly when the callback ends without error, and an error
  leaves the published clouds as they were. A mismatch of the frame ids, a depth encoding
  other than 16UC1 and 32FC1, and a label image that \<open>toCvCopy\<close> cannot convert all end the
  callback with an error.\<close>

theorem publish_iff_no_error:
  "(fst (imageCb env depth_msg label_msg info_msg s) = None
      \<longleftrightarrow> (\<exists>c. published (snd (imageCb env depth_msg label_msg info_msg s)) = published s @ [c]))
   \<and> (fst (imageCb env depth_msg label_msg info_msg s) \<noteq> None
      \<longleftrightarrow> published (snd (imageCb env depth_msg label_msg info_msg s)) = published s)
   \<and> (frame_id (header depth_msg) \<noteq> frame_id (header label_msg)
      \<longrightarrow> imageCb env depth_msg label_msg info_msg s = (Some FrameIdMismatch, s))
   \<and> (encoding depth_msg \<noteq> TYPE_16UC1 \<and> encoding depth_msg \<noteq> TYPE_32FC1
      \<longrightarrow> fst (imageCb env depth_msg label_msg info_msg s) \<noteq> None)
   \<and> (\<forall>l1 s1. frame_id (header depth_msg) = frame_id (header label_msg)
         \<and> imageCb_resize env depth_msg label_msg info_msg (s\<lparr>model := Some info_msg\<rparr>) = (Inr l1, s1)
         \<and> toCvCopy env l1 TYPE_32SC1 = None
      \<longrightarrow> fst (imageCb env depth_msg label_msg info_msg s) = Some UnsupportedLabelEncoding)"
proof -
  have pub: "imageCb_resize env depth_msg label_msg info_msg (s\<lparr>model := Some info_msg\<rparr>) = (r, s1)
             \<Longrightarrow> published s1 = published s" for r s1
    using resize_published [of env depth_msg label_msg info_msg "s\<lparr>model := Some info_msg\<rparr>"]
    by simp
  show ?thesis
  proof (cases rule: imageCb_cases [of depth_msg label_msg env info_msg s])
    case mismatch
    then show ?thesis by simp
  next
    case (resize e s1)
    then show ?thesis using pub [OF resize(2)] by simp
  next
    case (encoding l1 s1)
    then show ?thesis using pub [OF encoding(2)] by simp
  next
    case (convert l1 s1 cv e)
    then show ?thesis using pub [OF convert(2)] by simp
  next
    case (publish l1 s1 cv c)
    have "encoding depth_msg = TYPE_16UC1 \<or> encoding depth_msg = TYPE_32FC1"
      using publish(4) by (auto simp: imageCb_convert_def split: if_splits)
    then show ?thesis using publish pub [OF publish(2)] by auto
  qed
qed

theorem publish_iff_no_error_witness:
  "fst (imageCb ref_env ex_depth ex_label ex_info ex_nodelet) = None
   \<and> (\<exists>c. published (snd (imageCb ref_env ex_depth ex_label ex_info ex_nodelet)) = [c])
   \<and> imageCb ref_env ex_depth (ex_label\<lparr>header := ex_header\<lparr>frame_id := ''arm''\<rparr>\<rparr>) ex_info ex_nodelet
       = (Some FrameIdMismatch, ex_nodelet)
   \<and> fst (imageCb ref_env (ex_depth\<lparr>encoding := MONO8\<rparr>) ex_label ex_info ex_nodelet) \<noteq> None
   \<and> published (snd (imageCb ref_env (ex_depth\<lparr>encoding := MONO8\<rparr>) ex_label ex_info ex_nodelet)) = []
   \<and> fst (imageCb ref_env ex_depth (ex_label\<lparr>encoding := ''rgb8''\<rparr>) ex_info ex_nodelet)
       = Some UnsupportedLabelEncoding"
proof -
  have n: "published ex_nodelet = []"
    by (simp add: ex_nodelet_def)
  have "\<exists>c. published (snd (imageCb ref_env ex_depth ex_label ex_info ex_nodelet)) = [c]"
    using publish_iff_no_error [of ref_env ex_depth ex_label ex_info ex_nodelet] ex_rows_run
    by (simp add: n)
  moreover have "imageCb ref_env ex_depth (ex_label\<lparr>header := ex_header\<lparr>frame_id := ''arm''\<rparr>\<rparr>) ex_info ex_nodelet
       = (Some FrameIdMismatch, ex_nodelet)"
    using publish_iff_no_error [of ref_env ex_depth "ex_label\<lparr>header := ex_header\<lparr>frame_id := ''arm''\<rparr>\<rparr>" ex_info ex_nodelet]
      other_frame by blast
  moreover have "fst (imageCb ref_env (ex_depth\<lparr>encoding := MONO8\<rparr>) ex_label ex_info ex_nodelet) \<noteq> None
     \<and> published (snd (imageCb ref_env (ex_depth\<lparr>encoding := MONO8\<rparr>) ex_label ex_info ex_nodelet)) = []"
    using publish_iff_no_error [of ref_env "ex_depth\<lparr>encoding := MONO8\<rparr>" ex_label ex_info ex_nodelet]
      mono_depth n by metis
  moreover have "fst (imageCb ref_env ex_depth (ex_label\<lparr>encoding := ''rgb8''\<rparr>) ex_info ex_nodelet)
       = Some UnsupportedLabelEncoding"
    using publish_iff_no_error [of ref_env ex_depth "ex_label\<lparr>encoding := ''rgb8''\<rparr>" ex_info ex_nodelet]
      rgb_label by blast
  ultimately show ?thesis
    using ex_rows_run by simp
qed

text \<open>C4: a label image that is already 8UC1 is not passed through: it is converted to
  32SC1 like any other.\<close>

theorem supported_label_not_passed_through:
  "encoding ex_label8 = TYPE_8UC1
   \<and> imageCb_encoding ref_env ex_label8 =
       Inr (ex_label8\<lparr>encoding := TYPE_32SC1, step := 8, data := [7, 0, 0, 0, 9, 0, 0, 0]\<rparr>)
   \<and> imageCb_encoding ref_env ex_label8 \<noteq> Inr ex_label8"
  by (simp add: ex_label8_converted) (simp add: ex_label8_def enc_eval)

theorem supported_label_not_passed_through_witness:
  "imageCb_encoding ref_env ex_label8 \<noteq> Inr ex_label8 \<and> encoding ex_label8 = TYPE_8UC1"
  using supported_label_not_passed_through by blast

text \<open>C10: the result of the callback and the cloud it publishes do not depend on the state
  of the nodelet before the call; the camera model after a call that passed the frame id
  check does not either.\<close>

theorem imageCb_history_free:
  "fst (imageCb env depth_msg label_msg info_msg s) = fst (imageCb env depth_msg label_msg info_msg s')
   \<and> drop (length (published s)) (published (snd (imageCb env depth_msg label_msg info_msg s)))
     = drop (length (published s')) (published (snd (imageCb env depth_msg label_msg info_msg s')))
   \<and> (frame_id (header depth_msg) = frame_id (header label_msg) \<longrightarrow>
        model (snd (imageCb env depth_msg label_msg info_msg s))
        = model (snd (imageCb env depth_msg label_msg info_msg s')))"
proof (cases "frame_id (header depth_msg) = frame_id (header label_msg)")
  case False
  then show ?thesis by (simp add: imageCb_def)
next
  case same: True
  obtain r s1 where rs:
    "imageCb_resize env depth_msg label_msg info_msg (s\<lparr>model := Some info_msg\<rparr>) = (r, s1)"
    by (cases "imageCb_resize env depth_msg label_msg info_msg (s\<lparr>model := Some info_msg\<rparr>)")
  obtain r' s1' where rs':
    "imageCb_resize env depth_msg label_msg info_msg (s'\<lparr>model := Some info_msg\<rparr>) = (r', s1')"
    by (cases "imageCb_resize env depth_msg label_msg info_msg (s'\<lparr>model := Some info_msg\<rparr>)")
  have r: "r' = r"
    using resize_result_state_free [of env depth_msg label_msg info_msg
        "s\<lparr>model := Some info_msg\<rparr>" "s'\<lparr>model := Some info_msg\<rparr>"]
    by (simp add: rs rs')
  have m: "model s1' = model s1"
    using resize_model [of env depth_msg label_msg info_msg "s\<lparr>model := Some info_msg\<rparr>"]
      resize_model [of env depth_msg label_msg info_msg "s'\<lparr>model := Some info_msg\<rparr>"]
    by (simp add: rs rs')
  have p: "published s1 = published s" "published s1' = published s'"
    using resize_published [of env depth_msg label_msg info_msg "s\<lparr>model := Some info_msg\<rparr>"]
      resize_published [of env depth_msg label_msg info_msg "s'\<lparr>model := Some info_msg\<rparr>"]
    by (simp_all add: rs rs')
  have c: "imageCb_convert env s1' depth_msg l (new_cloud depth_msg)
           = imageCb_convert env s1 depth_msg l (new_cloud depth_msg)" for l
    using m by (rule imageCb_convert_model_only)
  show ?thesis
    using same by (simp add: imageCb_def rs rs' r m p c split: sum.splits)
qed

theorem imageCb_history_free_witness:
  "frame_id (header ex_depth) = frame_id (header ex_label)
   \<and> model ex_busy_nodelet \<noteq> model ex_nodelet
   \<and> published ex_busy_nodelet \<noteq> published ex_nodelet
   \<and> fst (imageCb ref_env ex_depth ex_label ex_info ex_nodelet)
       = fst (imageCb ref_env ex_depth ex_label ex_info ex_busy_nodelet)
   \<and> published (snd (imageCb ref_env ex_depth ex_label ex_info ex_nodelet))
       = drop 1 (published (snd (imageCb ref_env ex_depth ex_label ex_info ex_busy_nodelet)))
   \<and> model (snd (imageCb ref_env ex_depth ex_label ex_info ex_nodelet))
       = model (snd (imageCb ref_env ex_depth ex_label ex_info ex_busy_nodelet))"
proof -
  have f: "frame_id (header ex_depth) = frame_id (header ex_label)"
    by (simp add: ex_depth_def ex_label_def)
  have n: "published ex_nodelet = []" "length (published ex_busy_nodelet) = 1"
    "model ex_busy_nodelet \<noteq> model ex_nodelet"
    by (simp_all add: ex_nodelet_def ex_busy_nodelet_def)
  show ?thesis
    using imageCb_history_free [of ref_env ex_depth ex_label ex_info ex_nodelet ex_busy_nodelet] f n
    by auto
qed



text \<open>C8: every point of the cloud is written, with the label of its pixel. At an invalid
  pixel \<open>x\<close>, \<open>y\<close> and \<open>z\<close> are all NaN. At a valid pixel \<open>z\<close> is \<open>toMeters(depth)\<close>, and \<open>x\<close>,
  \<open>y\<close> and \<open>z\<close> are all finite when \<open>toMeters(depth)\<close> is finite and \<open>center_x\<close>, \<open>center_y\<close>,
  \<open>constant_x\<close>, \<open>constant_y\<close> and the depth as a \<open>float\<close> are finite with a magnitude of at most
  \<open>2^32\<close>. Finite, nonzero intrinsics alone are not enough: with \<open>fx = fy = 1\<close>,
  \<open>cx = cy = 1/2\<close> and the finite depth \<open>1.5 * 2^127\<close>, the product \<open>(2 - 1/2) * depth\<close>
  overflows and \<open>x\<close> is infinite, while \<open>y\<close> and \<open>z\<close> are finite.\<close>

theorem point_nan_or_projected:
  assumes conv: "convert env T tr T2 s depth_msg label_msg cloud_msg = Inr cloud'"
    and v: "v < nat (sint (cloud_height cloud_msg))"
    and u: "u < nat (sint (cloud_width cloud_msg))"
  shows "\<exists>cam d l. model s = Some cam
      \<and> depth_at T depth_msg v u = Some d \<and> label_at T2 label_msg v u = Some l
      \<and> length (points cloud')
          = nat (sint (cloud_height cloud_msg)) * nat (sint (cloud_width cloud_msg))
      \<and> plabel (points cloud' ! (v * nat (sint (cloud_width cloud_msg)) + u)) = lu32 T2 l
      \<and> (if \<not> valid tr d \<or> lneg T2 l
          then px (points cloud' ! (v * nat (sint (cloud_width cloud_msg)) + u)) = NaN
             \<and> py (points cloud' ! (v * nat (sint (cloud_width cloud_msg)) + u)) = NaN
             \<and> pz (points cloud' ! (v * nat (sint (cloud_width cloud_msg)) + u)) = NaN
          else pz (points cloud' ! (v * nat (sint (cloud_width cloud_msg)) + u)) = toMeters tr d
             \<and> (small (center_x (convert_locals env T tr cam))
                \<and> small (center_y (convert_locals env T tr cam))
                \<and> small (constant_x (convert_locals env T tr cam))
                \<and> small (constant_y (convert_locals env T tr cam))
                \<and> small (dfloat T d) \<and> is_finite (toMeters tr d)
                \<longrightarrow> is_finite (px (points cloud' ! (v * nat (sint (cloud_width cloud_msg)) + u)))
                  \<and> is_finite (py (points cloud' ! (v * nat (sint (cloud_width cloud_msg)) + u)))
                  \<and> is_finite (pz (points cloud' ! (v * nat (sint (cloud_width cloud_msg)) + u)))))"
proof -
  from convert_point [OF conv v u] obtain cam d l where cam: "model s = Some cam"
    and d: "depth_at T depth_msg v u = Some d" and l: "label_at T2 label_msg v u = Some l"
    and p: "points cloud' ! (v * nat (sint (cloud_width cloud_msg)) + u)
              = fill_point T tr T2 (convert_locals env T tr cam) v u d l"
    by blast
  have "sint (cloud_height cloud_msg) < 2 ^ 31" "sint (cloud_width cloud_msg) < 2 ^ 31"
    using sint_lt [of "cloud_height cloud_msg"] sint_lt [of "cloud_width cloud_msg"] by simp_all
  with v u have vu: "int v < 2 ^ 31" "int u < 2 ^ 31"
    by linarith+
  show ?thesis
    using cam d l convert_length [OF conv]
    by (auto simp: p fill_point_def convert_locals_def Let_def
          intro!: coordinate_finite [OF vu(1)] coordinate_finite [OF vu(2)])
qed

theorem point_nan_or_projected_witness:
  "convert ref_env uint16_t ref_traits_u16 int32_t (ex_nodelet\<lparr>model := Some ex_info\<rparr>)
     ex_depth ex_label (new_cloud ex_depth) = Inr ex_cloud
   \<and> depth_at uint16_t ex_depth 0 0 = Some 1000 \<and> label_at int32_t ex_label 0 0 = Some 7
   \<and> valid ref_traits_u16 1000
   \<and> small (center_x (convert_locals ref_env uint16_t ref_traits_u16 ex_info))
   \<and> small (constant_x (convert_locals ref_env uint16_t ref_traits_u16 ex_info))
   \<and> small (dfloat uint16_t 1000)
   \<and> length (points ex_cloud) = 2
   \<and> plabel (points ex_cloud ! 0) = 7
   \<and> is_finite (px (points ex_cloud ! 0)) \<and> is_finite (py (points ex_cloud ! 0))
   \<and> is_finite (pz (points ex_cloud ! 0))"
proof -
  have b: "0 < nat (sint (cloud_height (new_cloud ex_depth)))"
    "0 < nat (sint (cloud_width (new_cloud ex_depth)))"
    "nat (sint (cloud_height (new_cloud ex_depth))) * nat (sint (cloud_width (new_cloud ex_depth))) = 2"
    by (simp_all add: new_cloud_def setPointCloud2Fields_def ex_depth_def)
  have t: "valid ref_traits_u16 1000" "\<not> lneg int32_t 7" "small (dfloat uint16_t 1000)"
    "toMeters ref_traits_u16 1000 = Fin 1" "lu32 int32_t 7 = 7"
    by (simp_all add: ref_traits_u16_def int32_t_def uint16_t_def float_eval)
  have c: "small (center_x (convert_locals ref_env uint16_t ref_traits_u16 ex_info))"
    "small (center_y (convert_locals ref_env uint16_t ref_traits_u16 ex_info))"
    "small (constant_x (convert_locals ref_env uint16_t ref_traits_u16 ex_info))"
    "small (constant_y (convert_locals ref_env uint16_t ref_traits_u16 ex_info))"
    by (simp_all add: ex_locals)
  from point_nan_or_projected [OF ex_convert b(1) b(2)]
  show ?thesis
    using ex_convert ex_samples t c b(3) by auto
qed

theorem finite_intrinsics_infinite_x:
  "\<exists>c. published (snd (imageCb ref_env ex_far_depth ex_label3 ex_unit_info ex_nodelet)) = [c]
       \<and> px (points c ! 2) = PInf
       \<and> is_finite (py (points c ! 2)) \<and> is_finite (pz (points c ! 2))
       \<and> depth_at float_t ex_far_depth 0 2 = Some (Fin (3 * 2 ^ 126))
       \<and> valid (traits_f32 ref_env) (Fin (3 * 2 ^ 126))
       \<and> cam_fx ref_env ex_unit_info = Fin 1 \<and> cam_fy ref_env ex_unit_info = Fin 1
       \<and> cam_cx ref_env ex_unit_info = Fin (1 / 2) \<and> cam_cy ref_env ex_unit_info = Fin (1 / 2)"
proof -
  have "depth_at float_t ex_far_depth 0 2 = Some (Fin (3 * 2 ^ 126))"
    using far_bits by (simp add: depth_at_def ex_far_depth_def peek_def float_t_def int_of_size_def)
  moreover have "valid (traits_f32 ref_env) (Fin (3 * 2 ^ 126))"
    by (simp add: ref_env_def ref_traits_f32_def)
  ultimately show ?thesis
    by (simp add: far_run) (simp add: ref_env_def ex_unit_info_def)
qed


lemma l8_resize: "imageCb_resize ref_env ex_depth ex_label8 ex_info s = (Inr ex_label8, s)"
  by (simp add: imageCb_resize_def ex_depth_def ex_label8_def)

lemma l8_copy:
  "\<exists>cv. toCvCopy ref_env ex_label8 TYPE_32SC1 = Some cv
      \<and> toImageMsg ref_env cv
          = ex_label8\<lparr>encoding := TYPE_32SC1, step := 8, data := [7, 0, 0, 0, 9, 0, 0, 0]\<rparr>"
  by (simp add: ref_env_def ref_eval enc_eval ex_label8_def upt_conv_Cons)

lemma l8_rows:
  "convert_rows uint16_t ref_traits_u16 int32_t c (data ex_depth) [7, 0, 0, 0, 9, 0, 0, 0] 2 2 2 0 0 [0..<1]
   = Some [fill_point uint16_t ref_traits_u16 int32_t c 0 0 1000 7,
           fill_point uint16_t ref_traits_u16 int32_t c 0 1 0 9]"
  by (simp add: ex_depth_def pixel_eval upt_conv_Cons)

lemma l8_rows_uint8:
  "convert_rows uint16_t ref_traits_u16 uint8_t c (data ex_depth) [7, 0, 0, 0, 9, 0, 0, 0] 2 2 8 0 0 [0..<1]
   = Some [fill_point uint16_t ref_traits_u16 uint8_t c 0 0 1000 7,
           fill_point uint16_t ref_traits_u16 uint8_t c 0 1 0 0]"
  by (simp add: ex_depth_def pixel_eval upt_conv_Cons)

lemma l8_point1:
  "fill_point uint16_t ref_traits_u16 int32_t c 0 1 0 9
   = \<lparr>px = bad_point c, py = bad_point c, pz = bad_point c, plabel = 9\<rparr>"
  "plabel (fill_point T tr uint8_t c v u d 0) = 0"
  by (simp_all add: fill_point_def ref_traits_u16_def uint16_t_def int32_t_def uint8_t_def)

lemma l8_sizes:
  "nat (sint (cloud_width (new_cloud ex_depth))) = 2"
  "nat (sint (cloud_height (new_cloud ex_depth))) = 1"
  "int_of_size (unat (step ex_depth) div dsize uint16_t) = 2"
  "int_of_size (unat (step (ex_label8\<lparr>encoding := TYPE_32SC1, step := 8, data := [7, 0, 0, 0, 9, 0, 0, 0]\<rparr>))
     div lsize int32_t) = 2"
  "int_of_size (unat (step (ex_label8\<lparr>encoding := TYPE_32SC1, step := 8, data := [7, 0, 0, 0, 9, 0, 0, 0]\<rparr>))
     div lsize uint8_t) = 8"
  "data (ex_label8\<lparr>encoding := TYPE_32SC1, step := 8, data := [7, 0, 0, 0, 9, 0, 0, 0]\<rparr>)
     = [7, 0, 0, 0, 9, 0, 0, 0]"
  by (simp_all add: new_cloud_def setPointCloud2Fields_def ex_depth_def ex_label8_def
      int_of_size_def uint16_t_def int32_t_def uint8_t_def)

lemma l8_convert:
  assumes m: "model s = Some ex_info"
  shows "convert ref_env uint16_t ref_traits_u16 int32_t s ex_depth
           (ex_label8\<lparr>encoding := TYPE_32SC1, step := 8, data := [7, 0, 0, 0, 9, 0, 0, 0]\<rparr>)
           (new_cloud ex_depth) = Inr ex_cloud8"
  unfolding convert_def m option.case l8_sizes l8_rows ex_locals ex_point0 l8_point1
  by (simp add: ex_cloud8_def)

lemma l8_convert_uint8:
  assumes m: "model s = Some ex_info"
  shows "\<exists>c. convert ref_env uint16_t ref_traits_u16 uint8_t s ex_depth
           (ex_label8\<lparr>encoding := TYPE_32SC1, step := 8, data := [7, 0, 0, 0, 9, 0, 0, 0]\<rparr>)
           (new_cloud ex_depth) = Inr c \<and> plabel (points c ! 1) = 0"
  unfolding convert_def m option.case l8_sizes l8_rows_uint8
  by (simp add: l8_point1)

text \<open>C9: the guard of line 207 holds for every encoding, so the callback always asks
  \<open>toCvCopy\<close> for a 32SC1 copy of the label image, and hands the copy to \<open>convert\<close>:
  given that \<open>toCvCopy\<close> returns an image of the encoding asked for, the callback is the
  one below, where \<open>convert\<close> is only ever instantiated with \<open>int32_t\<close> labels. The two
  \<open>uint8_t\<close> branches of the dispatch are not taken.\<close>

theorem label_always_converted:
  assumes contract:
    "\<And>img cv. toCvCopy env img TYPE_32SC1 = Some cv \<Longrightarrow> encoding (toImageMsg env cv) = TYPE_32SC1"
  shows "(\<forall>e. e \<noteq> TYPE_32SC1 \<or> e \<noteq> TYPE_8UC1)
    \<and> imageCb_encoding env label_msg =
        (case toCvCopy env label_msg TYPE_32SC1 of
           None \<Rightarrow> Inl UnsupportedLabelEncoding
         | Some cv \<Rightarrow> Inr (toImageMsg env cv))
    \<and> (\<forall>l'. imageCb_encoding env label_msg = Inr l' \<longrightarrow> encoding l' = TYPE_32SC1)
    \<and> imageCb env depth_msg label_msg info_msg s =
        (if frame_id (header depth_msg) \<noteq> frame_id (header label_msg)
         then (Some FrameIdMismatch, s)
         else
           (case imageCb_resize env depth_msg label_msg info_msg (s\<lparr>model := Some info_msg\<rparr>) of
              (Inl e, s1) \<Rightarrow> (Some e, s1)
            | (Inr l1, s1) \<Rightarrow>
                (case toCvCopy env l1 TYPE_32SC1 of
                   None \<Rightarrow> (Some UnsupportedLabelEncoding, s1)
                 | Some cv \<Rightarrow>
                     (case (if encoding depth_msg = TYPE_16UC1
                            then convert env uint16_t (traits_u16 env) int32_t s1 depth_msg
                                   (toImageMsg env cv) (new_cloud depth_msg)
                            else if encoding depth_msg = TYPE_32FC1
                            then convert env float_t (traits_f32 env) int32_t s1 depth_msg
                                   (toImageMsg env cv) (new_cloud depth_msg)
                            else Inl UnsupportedDepthEncoding) of
                        Inl e \<Rightarrow> (Some e, s1)
                      | Inr cloud_msg \<Rightarrow> (None, s1\<lparr>published := published s1 @ [cloud_msg]\<rparr>)))))"
proof -
  have guard: "e \<noteq> TYPE_32SC1 \<or> e \<noteq> TYPE_8UC1" for e
    by (auto simp: TYPE_32SC1_def TYPE_8UC1_def)
  have step: "imageCb_encoding env l =
        (case toCvCopy env l TYPE_32SC1 of
           None \<Rightarrow> Inl UnsupportedLabelEncoding
         | Some cv \<Rightarrow> Inr (toImageMsg env cv))" for l
    using guard [of "encoding l"] by (simp add: imageCb_encoding_def)
  have enc: "encoding l' = TYPE_32SC1" if "imageCb_encoding env l = Inr l'" for l l'
    using that contract [of l] by (auto simp: step split: option.splits)
  have disp: "imageCb_convert env t depth_msg l' c =
              (if encoding depth_msg = TYPE_16UC1
               then convert env uint16_t (traits_u16 env) int32_t t depth_msg l' c
               else if encoding depth_msg = TYPE_32FC1
               then convert env float_t (traits_f32 env) int32_t t depth_msg l' c
               else Inl UnsupportedDepthEncoding)" if "encoding l' = TYPE_32SC1" for l' t c
    using that by (simp add: imageCb_convert_def)
  have cb: "imageCb env depth_msg label_msg info_msg s =
        (if frame_id (header depth_msg) \<noteq> frame_id (header label_msg)
         then (Some FrameIdMismatch, s)
         else
           (case imageCb_resize env depth_msg label_msg info_msg (s\<lparr>model := Some info_msg\<rparr>) of
              (Inl e, s1) \<Rightarrow> (Some e, s1)
            | (Inr l1, s1) \<Rightarrow>
                (case toCvCopy env l1 TYPE_32SC1 of
                   None \<Rightarrow> (Some UnsupportedLabelEncoding, s1)
                 | Some cv \<Rightarrow>
                     (case (if encoding depth_msg = TYPE_16UC1
                            then convert env uint16_t (traits_u16 env) int32_t s1 depth_msg
                                   (toImageMsg env cv) (new_cloud depth_msg)
                            else if encoding depth_msg = TYPE_32FC1
                            then convert env float_t (traits_f32 env) int32_t s1 depth_msg
                                   (toImageMsg env cv) (new_cloud depth_msg)
                            else Inl UnsupportedDepthEncoding) of
                        Inl e \<Rightarrow> (Some e, s1)
                      | Inr cloud_msg \<Rightarrow> (None, s1\<lparr>published := published s1 @ [cloud_msg]\<rparr>)))))"
    unfolding imageCb_def
    by (auto simp: step disp contract split: prod.splits sum.splits option.splits)
  show ?thesis
    using guard step [of label_msg] enc [of label_msg] cb by blast
qed

theorem label_always_converted_witness:
  "encoding ex_label8 = TYPE_8UC1
   \<and> imageCb ref_env ex_depth ex_label8 ex_info ex_nodelet
       = (None, \<lparr>model = Some ex_info, published = [ex_cloud8]\<rparr>)
   \<and> plabel (points ex_cloud8 ! 1) = 9
   \<and> (\<exists>c. convert ref_env uint16_t (traits_u16 ref_env) uint8_t \<lparr>model = Some ex_info, published = []\<rparr>
              ex_depth (ex_label8\<lparr>encoding := TYPE_32SC1, step := 8, data := [7, 0, 0, 0, 9, 0, 0, 0]\<rparr>)
              (new_cloud ex_depth) = Inr c
          \<and> plabel (points c ! 1) = 0)"
proof -
  have e: "encoding ex_label8 = TYPE_8UC1" "encoding ex_depth = TYPE_16UC1"
    "frame_id (header ex_depth) = frame_id (header ex_label8)"
    by (simp_all add: ex_depth_def ex_label8_def)
  have t: "traits_u16 ref_env = ref_traits_u16"
    by (simp add: ref_env_def)
  obtain cv where cv: "toCvCopy ref_env ex_label8 TYPE_32SC1 = Some cv"
    "toImageMsg ref_env cv
       = ex_label8\<lparr>encoding := TYPE_32SC1, step := 8, data := [7, 0, 0, 0, 9, 0, 0, 0]\<rparr>"
    using l8_copy by blast
  have m: "model (ex_nodelet\<lparr>model := Some ex_info\<rparr>) = Some ex_info"
    "model \<lparr>model = Some ex_info, published = []\<rparr> = Some ex_info"
    by simp_all
  from label_always_converted [where env = ref_env and label_msg = ex_label8
      and depth_msg = ex_depth and info_msg = ex_info and s = ex_nodelet, OF ref_copy_contract]
  have "imageCb ref_env ex_depth ex_label8 ex_info ex_nodelet
       = (None, \<lparr>model = Some ex_info, published = [ex_cloud8]\<rparr>)"
    by (simp add: e t l8_resize cv l8_convert [OF m(1)]) (simp add: ex_nodelet_def)
  moreover have "plabel (points ex_cloud8 ! 1) = 9"
    by (simp add: ex_cloud8_def)
  ultimately show ?thesis
    using e(1) l8_convert_uint8 [OF m(2)] by (simp add: t)
qed


text \<open>A depth image of 1296 by 972 over a label image of 640 by 480: the quotient of the
  widths is rounded to a \<open>float\<close> above 2.025, and the quotient of 972 by it to the \<open>float\<close>
  below 480.\<close>

lemma vga_ratio:
  "fdiv Binary32 (float_of_int 1296) (float_of_int 640) = Fin (4246733 / 2097152)"
  by (simp add: float_of_int_def float_eval)

lemma vga_rows:
  "int_of_float (fdiv Binary32 (float_of_int 972) (Fin (4246733 / 2097152))) = Some 479"
  by (simp add: float_of_int_def float_eval)

lemma big_nearest:
  "ref_resize [[[7, 0, 0, 0]]] (2, 2) (Fin 0) (Fin 0) INTER_NEAREST
   = Some [[[7, 0, 0, 0], [7, 0, 0, 0]], [[7, 0, 0, 0], [7, 0, 0, 0]]]"
  by (simp add: ref_resize_def upt_conv_Cons)

text \<open>C5: when the sizes differ, the camera model is made from the camera info with
  \<open>K[0]\<close>, \<open>K[2]\<close>, \<open>K[4]\<close>, \<open>K[5]\<close>, \<open>P[0]\<close>, \<open>P[2]\<close>, \<open>P[5]\<close>, \<open>P[6]\<close> (the focal
  lengths and the principal point) multiplied by \<open>ratio\<close>, the quotient of the two widths as
  \<open>float\<close>s, and the rows \<open>0\<close> to \<open>floor(q)\<close> of the label image are resized to the size of
  the depth image, \<open>q\<close> being the \<open>float\<close> quotient of the depth height by \<open>ratio\<close>. The
  resize is not by nearest neighbour: \<open>cv::resize\<close> is called with the scale factors 0 and 0
  and the interpolation \<open>INTER_LINEAR\<close>, and what it does with \<open>INTER_NEAREST\<close> has no
  effect on the callback. For the label image of one 32SC1 pixel and the depth image of two
  rows and two columns, the nearest-neighbour resize has a result, but the callback ends
  with the exception of \<open>cv::resize\<close> and publishes nothing.\<close>

theorem resize_linear_not_nearest:
  assumes differ: "width depth_msg \<noteq> width label_msg \<or> height depth_msg \<noteq> height label_msg"
    and ratio: "ratio = fdiv Binary32 (float_of_int (uint (width depth_msg)))
                                      (float_of_int (uint (width label_msg)))"
  shows "imageCb_resize env depth_msg label_msg info_msg s =
           ((case toCvShare env label_msg (encoding label_msg) of
               None \<Rightarrow> Inl CvBridgeException
             | Some cv_ptr \<Rightarrow>
                 (case int_of_float (fdiv Binary32 (float_of_int (uint (height depth_msg))) ratio) of
                    None \<Rightarrow> Inl Undefined
                  | Some rows \<Rightarrow>
                      (case rowRange env (cv_mat cv_ptr) 0 rows of
                         None \<Rightarrow> Inl OpenCVException
                       | Some cropped \<Rightarrow>
                           (case resize env cropped (sint (width depth_msg), sint (height depth_msg))
                                   (Fin 0) (Fin 0) INTER_LINEAR of
                              None \<Rightarrow> Inl OpenCVException
                            | Some resized \<Rightarrow>
                                Inr (toImageMsg env
                                       \<lparr>cv_header = cv_header cv_ptr,
                                        cv_encoding = cv_encoding cv_ptr,
                                        cv_mat = resized\<rparr>))))),
            s\<lparr>model := Some (scale_info info_msg depth_msg ratio)\<rparr>)
       \<and> (\<forall>j\<in>{0, 2, 4, 5}. K (scale_info info_msg depth_msg ratio) j = fmul Binary64 (K info_msg j) ratio)
       \<and> (\<forall>j\<in>{0, 2, 5, 6}. P (scale_info info_msg depth_msg ratio) j = fmul Binary64 (P info_msg j) ratio)
       \<and> (\<forall>rows. int_of_float (fdiv Binary32 (float_of_int (uint (height depth_msg))) ratio) = Some rows
            \<longrightarrow> (\<exists>q\<ge>0. fdiv Binary32 (float_of_int (uint (height depth_msg))) ratio = Fin q
                       \<and> rows = \<lfloor>q\<rfloor>))
       \<and> (\<forall>nearest.
             imageCb_resize
               (env\<lparr>resize := \<lambda>m sz fx fy interp.
                                 if interp = INTER_NEAREST then nearest m sz fx fy
                                 else resize env m sz fx fy interp\<rparr>)
               depth_msg label_msg info_msg s
             = imageCb_resize env depth_msg label_msg info_msg s)"
proof -
  have nn: "nonneg (float_of_int (uint w))" for w :: "32 word"
    by (rule nonneg_float_of_int) simp
  have rn: "ratio = NaN \<or> nonneg ratio"
    unfolding ratio by (rule nonneg_fdiv) (rule nn)+
  have qn: "\<exists>q\<ge>0. fdiv Binary32 (float_of_int (uint (height depth_msg))) ratio = Fin q \<and> n = \<lfloor>q\<rfloor>"
    if "int_of_float (fdiv Binary32 (float_of_int (uint (height depth_msg))) ratio) = Some n" for n
  proof (cases "ratio = NaN")
    case True
    with that show ?thesis
      by (cases "float_of_int (uint (height depth_msg))") simp_all
  next
    case False
    with rn have "nonneg ratio" by simp
    then have "fdiv Binary32 (float_of_int (uint (height depth_msg))) ratio = NaN
               \<or> nonneg (fdiv Binary32 (float_of_int (uint (height depth_msg))) ratio)"
      by (intro nonneg_fdiv nn)
    with that show ?thesis
      by (auto dest: int_of_float_floor)
  qed
  have flag: "double_of_int (interpolation_flag INTER_NEAREST) = Fin 0"
    by (simp add: double_of_int_def)
  have eq: "imageCb_resize env depth_msg label_msg info_msg s =
           ((case toCvShare env label_msg (encoding label_msg) of
               None \<Rightarrow> Inl CvBridgeException
             | Some cv_ptr \<Rightarrow>
                 (case int_of_float (fdiv Binary32 (float_of_int (uint (height depth_msg))) ratio) of
                    None \<Rightarrow> Inl Undefined
                  | Some rows \<Rightarrow>
                      (case rowRange env (cv_mat cv_ptr) 0 rows of
                         None \<Rightarrow> Inl OpenCVException
                       | Some cropped \<Rightarrow>
                           (case resize env cropped (sint (width depth_msg), sint (height depth_msg))
                                   (Fin 0) (Fin 0) INTER_LINEAR of
                              None \<Rightarrow> Inl OpenCVException
                            | Some resized \<Rightarrow>
                                Inr (toImageMsg env
                                       \<lparr>cv_header = cv_header cv_ptr,
                                        cv_encoding = cv_encoding cv_ptr,
                                        cv_mat = resized\<rparr>))))),
            s\<lparr>model := Some (scale_info info_msg depth_msg ratio)\<rparr>)"
    using differ unfolding imageCb_resize_def flag ratio Let_def
    by (simp split: option.splits)
  have k: "\<forall>j\<in>{0, 2, 4, 5}. K (scale_info info_msg depth_msg ratio) j = fmul Binary64 (K info_msg j) ratio"
    and p: "\<forall>j\<in>{0, 2, 5, 6}. P (scale_info info_msg depth_msg ratio) j = fmul Binary64 (P info_msg j) ratio"
    by (simp_all add: scale_info_def)
  have ind: "imageCb_resize
               (env\<lparr>resize := \<lambda>m sz fx fy interp.
                                 if interp = INTER_NEAREST then nearest m sz fx fy
                                 else resize env m sz fx fy interp\<rparr>)
               depth_msg label_msg info_msg s
             = imageCb_resize env depth_msg label_msg info_msg s" for nearest
    by (simp add: imageCb_resize_def Let_def split: option.splits)
  show ?thesis
    using eq k p qn ind by blast
qed

theorem resize_linear_not_nearest_witness:
  "width ex_big_depth \<noteq> width ex_small_label
   \<and> fdiv Binary32 (float_of_int (uint (width ex_big_depth))) (float_of_int (uint (width ex_small_label)))
       = Fin 2
   \<and> imageCb_resize ref_env ex_big_depth ex_small_label ex_info ex_nodelet
       = (Inl OpenCVException, \<lparr>model = Some (scale_info ex_info ex_big_depth (Fin 2)), published = []\<rparr>)
   \<and> K (scale_info ex_info ex_big_depth (Fin 2)) 0 = fmul Binary64 (Fin 100) (Fin 2)
   \<and> P (scale_info ex_info ex_big_depth (Fin 2)) 2 = fmul Binary64 (Fin (1 / 2)) (Fin 2)
   \<and> fdiv Binary32 (float_of_int (uint (height ex_big_depth))) (Fin 2) = Fin 1
   \<and> toCvShare ref_env ex_small_label (encoding ex_small_label)
       = Some \<lparr>cv_header = ex_header\<lparr>stamp := 6\<rparr>, cv_encoding = TYPE_32SC1, cv_mat = [[[7, 0, 0, 0]]]\<rparr>
   \<and> rowRange ref_env [[[7, 0, 0, 0]]] 0 1 = Some [[[7, 0, 0, 0]]]
   \<and> resize ref_env [[[7, 0, 0, 0]]] (2, 2) (Fin 0) (Fin 0) INTER_LINEAR = None
   \<and> resize ref_env [[[7, 0, 0, 0]]] (2, 2) (Fin 0) (Fin 0) INTER_NEAREST
       = Some [[[7, 0, 0, 0], [7, 0, 0, 0]], [[7, 0, 0, 0], [7, 0, 0, 0]]]
   \<and> imageCb_resize
         (ref_env\<lparr>resize := \<lambda>m sz fx fy interp.
                                if interp = INTER_NEAREST then None
                                else resize ref_env m sz fx fy interp\<rparr>)
         ex_big_depth ex_small_label ex_info ex_nodelet
       = (Inl OpenCVException, \<lparr>model = Some (scale_info ex_info ex_big_depth (Fin 2)), published = []\<rparr>)
   \<and> imageCb ref_env ex_big_depth ex_small_label ex_info ex_nodelet
       = (Some OpenCVException, \<lparr>model = Some (scale_info ex_info ex_big_depth (Fin 2)), published = []\<rparr>)
   \<and> int_of_float (fdiv Binary32 (float_of_int 972) (fdiv Binary32 (float_of_int 1296) (float_of_int 640)))
       = Some 479
   \<and> \<lfloor>(972 :: real) / (1296 / 640)\<rfloor> = 480"
proof -
  have differ: "width ex_big_depth \<noteq> width ex_small_label \<or> height ex_big_depth \<noteq> height ex_small_label"
    by (simp add: ex_big_depth_def ex_small_label_def)
  have kp: "K ex_info 0 = Fin 100" "P ex_info 2 = Fin (1 / 2)"
    by (simp_all add: ex_info_def)
  have q: "fdiv Binary32 (float_of_int (uint (height ex_big_depth))) (Fin 2) = Fin 1"
    by (simp add: ex_big_depth_def float_eval float_of_int_def)
  have sh: "toCvShare ref_env ex_small_label (encoding ex_small_label)
       = Some \<lparr>cv_header = ex_header\<lparr>stamp := 6\<rparr>, cv_encoding = TYPE_32SC1, cv_mat = [[[7, 0, 0, 0]]]\<rparr>"
    using big_share by (simp add: ref_env_def)
  have cr: "rowRange ref_env [[[7, 0, 0, 0]]] 0 1 = Some [[[7, 0, 0, 0]]]"
    using big_crop by (simp add: ref_env_def)
  have lin: "resize ref_env m sz fx fy INTER_LINEAR = None" for m sz fx fy
    by (simp add: ref_env_def ref_linear_refused)
  have nst: "resize ref_env [[[7, 0, 0, 0]]] (2, 2) (Fin 0) (Fin 0) INTER_NEAREST
       = Some [[[7, 0, 0, 0], [7, 0, 0, 0]], [[7, 0, 0, 0], [7, 0, 0, 0]]]"
    by (simp add: ref_env_def big_nearest)
  have f: "frame_id (header ex_big_depth) = frame_id (header ex_small_label)"
    by (simp add: ex_big_depth_def ex_small_label_def)
  have st: "ex_nodelet\<lparr>model := Some m\<rparr> = \<lparr>model = Some m, published = []\<rparr>" for m
    by (simp add: ex_nodelet_def)
  from resize_linear_not_nearest [where env = ref_env and info_msg = ex_info and s = ex_nodelet,
      OF differ big_ratio [symmetric]]
  have r: "imageCb_resize ref_env ex_big_depth ex_small_label ex_info ex_nodelet
       = (Inl OpenCVException, \<lparr>model = Some (scale_info ex_info ex_big_depth (Fin 2)), published = []\<rparr>)"
    and k: "K (scale_info ex_info ex_big_depth (Fin 2)) 0 = fmul Binary64 (Fin 100) (Fin 2)"
    and p: "P (scale_info ex_info ex_big_depth (Fin 2)) 2 = fmul Binary64 (Fin (1 / 2)) (Fin 2)"
    and n: "imageCb_resize
         (ref_env\<lparr>resize := \<lambda>m sz fx fy interp.
                                if interp = INTER_NEAREST then None
                                else resize ref_env m sz fx fy interp\<rparr>)
         ex_big_depth ex_small_label ex_info ex_nodelet
       = imageCb_resize ref_env ex_big_depth ex_small_label ex_info ex_nodelet"
    by (simp_all add: sh big_rows_count cr lin st kp)
  have vga: "int_of_float (fdiv Binary32 (float_of_int 972) (fdiv Binary32 (float_of_int 1296) (float_of_int 640)))
       = Some 479" "\<lfloor>(972 :: real) / (1296 / 640)\<rfloor> = 480"
    by (simp_all add: vga_ratio vga_rows)
  have cb: "imageCb ref_env ex_big_depth ex_small_label ex_info ex_nodelet
       = (Some OpenCVException, \<lparr>model = Some (scale_info ex_info ex_big_depth (Fin 2)), published = []\<rparr>)"
    by (simp add: imageCb_def f big_resize st)
  show ?thesis
    using differ big_ratio r k p q sh cr lin nst cb n vga
    by (simp add: ex_big_depth_def ex_small_label_def)
qed

section \<open>The rounding error of the projection\<close>
















subsection \<open>The example frames\<close>












subsection \<open>The projection of a valid pixel\<close>




end
